theory Spec2Isabelle
  imports Main "HOL-Library.Word" "HOL-Library.AList"
begin

unbundle bit_operations_syntax

section \<open>The extent client of \<^verbatim>\<open>sdk/data/extent_client.go\<close>\<close>

text \<open>
  The engine facade \<^verbatim>\<open>ExtentClient\<close> is embedded function by function. Every public
  operation takes the client and returns its results together with the client after the
  call. Go's \<^verbatim>\<open>int\<close>, \<^verbatim>\<open>int64\<close> and \<^verbatim>\<open>uint64\<close> are 64-bit words (a 64-bit
  platform); signed comparisons are written \<open><s\<close>, and \<open>sint\<close> and \<open>uint\<close> read a word
  as a signed and as an unsigned number.

  The streamer (\<^verbatim>\<open>Streamer\<close>, its worker and its extent cache), the partition wrapper and
  the master client are declared outside \<^verbatim>\<open>extent_client.go\<close>. What the facade calls on
  them is taken as a parameter, the record \<open>StreamerOps\<close>: a theorem that quantifies over
  \<open>ops\<close> holds for every implementation of these methods. The calls the facade makes on
  its collaborators are recorded, in order, in the field \<open>trace\<close> of the client, which no
  collaborator can touch; this is how "a request is issued" or "nothing is enqueued" is
  expressed.

  The embedding is of one call at a time: the locks of the registry segments, the
  goroutines of the background tasks and the context argument of the operations are not
  part of it.
\<close>

subsection \<open>Integers, strings, errors\<close>

type_synonym go_int = "64 word"
type_synonym int64 = "64 word"
type_synonym uint64 = "64 word"
type_synonym byte = "8 word"

text \<open>\<^verbatim>\<open>fmt.Sprintf("%v", n)\<close> on an integer: its decimal digits.\<close>

definition digit :: "nat \<Rightarrow> char" where
  "digit n = ''0123456789'' ! n"

function Sprint_nat :: "nat \<Rightarrow> string" where
  "Sprint_nat n = (if n < 10 then [digit n] else Sprint_nat (n div 10) @ [digit (n mod 10)])"
  by pat_completeness auto
termination
  by (relation "measure id") auto

declare Sprint_nat.simps [simp del]

definition Sprint_int :: "int \<Rightarrow> string" where
  "Sprint_int i = (if i < 0 then CHR ''-'' # Sprint_nat (nat (- i)) else Sprint_nat (nat i))"

text \<open>\<^verbatim>\<open>strings.Contains(s, substr)\<close>.\<close>

definition HasPrefix :: "string \<Rightarrow> string \<Rightarrow> bool" where
  "HasPrefix s pre = (take (length pre) s = pre)"

fun Contains :: "string \<Rightarrow> string \<Rightarrow> bool" where
  "Contains [] substr = (substr = [])"
| "Contains (c # cs) substr = (HasPrefix (c # cs) substr \<or> Contains cs substr)"

text \<open>
  Error values. The three sentinels come from the package \<^verbatim>\<open>proto\<close>; \<open>Errorf\<close> is an
  error made by \<^verbatim>\<open>fmt.Errorf\<close> with the formatted message, \<open>Trace\<close> an error wrapped by
  \<^verbatim>\<open>errors.Trace\<close> with a prefix.
\<close>

datatype error =
    ErrVolNotExists
  | ErrGetExtentsFailed
  | ExtentNotFoundError
  | Errorf string
  | Trace error string

text \<open>
  Modelled from the spec: the message texts of the \<^verbatim>\<open>proto\<close> sentinels and the layout of
  \<^verbatim>\<open>errors.Trace\<close> are declared outside \<^verbatim>\<open>src/\<close>; the spec names the errors
  \<^verbatim>\<open>VolNotExists\<close>, \<^verbatim>\<open>GetExtentsFailed\<close> and \<^verbatim>\<open>ExtentNotFound\<close>. The texts are only
  read by \<^verbatim>\<open>strings.Contains\<close> in \<^verbatim>\<open>Read\<close>.
\<close>

fun Error :: "error \<Rightarrow> string" where
  "Error ErrVolNotExists = ''VolNotExists''"
| "Error ErrGetExtentsFailed = ''GetExtentsFailed''"
| "Error ExtentNotFoundError = ''ExtentNotFound''"
| "Error (Errorf msg) = msg"
| "Error (Trace e pre) = pre @ '': '' @ Error e"

subsection \<open>Constants of the package \<^verbatim>\<open>unit\<close>\<close>

text \<open>
  Modelled from the spec: \<^verbatim>\<open>unit.ExtentSize\<close>, \<^verbatim>\<open>unit.MinExtentSize\<close> and
  \<^verbatim>\<open>unit.DefaultTinySizeLimit\<close> are declared outside \<^verbatim>\<open>src/\<close>. The spec gives the
  default and maximal extent size as 128 MiB and the minimal one as 1 MiB; the default tiny
  size is not given and is taken to be 1 MiB (no property below depends on it).
\<close>

definition ExtentSize :: go_int where
  "ExtentSize = 134217728"

definition MinExtentSize :: go_int where
  "MinExtentSize = 1048576"



definition defaultReadLimitBurst :: go_int where
  "defaultReadLimitBurst = 128"

definition defaultWriteLimitBurst :: go_int where
  "defaultWriteLimitBurst = 128"


subsection \<open>The rate limiter\<close>

text \<open>
  \<^verbatim>\<open>rate.Limit\<close> (package \<^verbatim>\<open>golang.org/x/time/rate\<close>) is a \<^verbatim>\<open>float64\<close>. Every limit the
  client sets is \<^verbatim>\<open>rate.Inf\<close> or the conversion of a 64-bit integer, and such a conversion
  is a float with an integer value: \<open>Float64 x\<close> is the \<^verbatim>\<open>float64\<close> whose value is the
  integer \<open>x\<close>. \<open>rate_Inf\<close> is \<^verbatim>\<open>rate.Inf\<close>, that is \<^verbatim>\<open>math.MaxFloat64\<close>, which no 64-bit
  integer converts to.

  \<open>float64_of_int\<close> is Go's conversion of an integer to \<^verbatim>\<open>float64\<close>: a \<^verbatim>\<open>float64\<close> has 53
  significant bits, so an integer below \<open>2 ^ 53\<close> in magnitude is kept, and a larger one
  loses its \<open>excess_bits\<close> lowest bits, rounded to the nearest float, to the even one in a
  tie. \<open>rate_Limit n\<close> is the conversion \<^verbatim>\<open>rate.Limit(n)\<close>.
\<close>

function excess_bits :: "int \<Rightarrow> nat" where
  "excess_bits a = (if a < 2 ^ 53 then 0 else Suc (excess_bits (a div 2)))"
  by pat_completeness auto
termination
  by (relation "measure nat") auto

declare excess_bits.simps [simp del]

definition float64_of_int :: "int \<Rightarrow> int" where
  "float64_of_int n =
     (let a = \<bar>n\<bar>;
          e = excess_bits a;
          q = a div 2 ^ e;
          r = a mod 2 ^ e;
          m = (if 2 ^ e < 2 * r \<or> (2 * r = 2 ^ e \<and> odd q) then q + 1 else q)
      in sgn n * (m * 2 ^ e))"

datatype Limit = rate_Inf | Float64 int

definition rate_Limit :: "int \<Rightarrow> Limit" where
  "rate_Limit n = Float64 (float64_of_int n)"

record Limiter =
  limit :: Limit
  burst :: go_int

definition NewLimiter :: "Limit \<Rightarrow> go_int \<Rightarrow> Limiter" where
  "NewLimiter r b = \<lparr>limit = r, burst = b\<rparr>"

definition SetLimit :: "Limit \<Rightarrow> Limiter \<Rightarrow> Limiter" where
  "SetLimit newLimit lim = lim\<lparr>limit := newLimit\<rparr>"

text \<open>
  \<^verbatim>\<open>int(lim.Limit())\<close>, from \<^verbatim>\<open>float64\<close> to \<^verbatim>\<open>int\<close>. A value from \<open>- (2 ^ 63)\<close> up to,
  but not including, \<open>2 ^ 63\<close> is converted exactly. For a value that does not fit, Go
  leaves the result implementation-dependent; this is the result on amd64, where the
  instruction yields the smallest integer \<open>- (2 ^ 63)\<close> for every value out of range, and
  so for \<^verbatim>\<open>rate.Inf\<close>.
\<close>

definition int_of_Limit :: "Limit \<Rightarrow> go_int" where
  "int_of_Limit l =
     (case l of
        rate_Inf \<Rightarrow> - (2 ^ 63)
      | Float64 x \<Rightarrow> if - (2 ^ 63) \<le> x \<and> x < 2 ^ 63 then word_of_int x else - (2 ^ 63))"

definition getRate :: "Limiter \<Rightarrow> string" where
  "getRate lim =
     (let val = int_of_Limit (limit lim)
      in if 0 <s val then Sprint_int (sint val) else ''unlimited'')"

definition setRate :: "Limiter \<Rightarrow> go_int \<Rightarrow> string \<times> Limiter" where
  "setRate lim val =
     (if 0 <s val then (Sprint_int (sint val), SetLimit (rate_Limit (sint val)) lim)
      else (''unlimited'', SetLimit rate_Inf lim))"

subsection \<open>Extent keys, requests, the extent cache and the streamer\<close>

record ExtentKey =
  PartitionId :: uint64
  ExtentId :: uint64
  ExtentOffset :: uint64
  ek_FileOffset :: uint64
  ek_Size :: "32 word"

record ExtentRequest =
  req_FileOffset :: uint64
  req_Size :: go_int
  req_Data :: "byte list"
  req_ExtentKey :: "ExtentKey option"

text \<open>
  Modelled from the spec: the extent cache is declared outside \<^verbatim>\<open>src/\<close>. By the spec
  it holds the flag \<^verbatim>\<open>initialized\<close>, which the facade reads, the size of the file, the
  generation and the extent keys.
\<close>

record ExtentCache =
  initialized :: bool
  ec_size :: uint64
  ec_gen :: uint64
  ec_keys :: "ExtentKey list"

text \<open>
  The fields of the streamer that the facade reads: its inode, its extent cache, the one-shot
  latch \<^verbatim>\<open>once\<close> (\<open>True\<close> when it has fired) and the overwrite buffer.
\<close>

record Streamer =
  inode :: uint64
  extents :: ExtentCache
  once :: bool
  overWriteReq :: "(ExtentRequest \<times> bool) list"

type_synonym registry = "(uint64 \<times> Streamer) list"

record DataPartition =
  PartitionID :: uint64

text \<open>
  The methods of the streamer and of its extent cache that the facade calls. Each takes the
  streamer and returns it after the call; the three release requests may also remove the
  streamer from the registry, so they take and return the registry. A pointer to a data
  partition that may be nil is a \<open>DataPartition option\<close>. \<open>Size\<close> is the method
  \<^verbatim>\<open>Size()\<close> of the extent cache, with its two results.
\<close>

record StreamerOps =
  GetExtents :: "Streamer \<Rightarrow> error option \<times> Streamer"
  PrepareRequests :: "ExtentCache \<Rightarrow> uint64 \<Rightarrow> go_int \<Rightarrow> byte list \<Rightarrow> ExtentRequest list"
  IssueWriteRequest ::
    "Streamer \<Rightarrow> uint64 \<Rightarrow> byte list \<Rightarrow> bool \<Rightarrow> bool \<Rightarrow> (go_int \<times> bool \<times> error option) \<times> Streamer"
  IssueFlushRequest :: "Streamer \<Rightarrow> error option \<times> Streamer"
  IssueTruncRequest :: "Streamer \<Rightarrow> uint64 \<Rightarrow> error option \<times> Streamer"
  IssueExtentMergeRequest :: "Streamer \<Rightarrow> (bool \<times> error option) \<times> Streamer"
  IssueReleaseRequest :: "Streamer \<Rightarrow> registry \<Rightarrow> error option \<times> registry"
  IssueMustReleaseRequest :: "Streamer \<Rightarrow> registry \<Rightarrow> error option \<times> registry"
  IssueEvictRequest :: "Streamer \<Rightarrow> registry \<Rightarrow> error option \<times> registry"
  writeToNewExtent ::
    "Streamer \<Rightarrow> ExtentRequest \<Rightarrow> bool
      \<Rightarrow> (DataPartition option \<times> go_int \<times> go_int \<times> error option) \<times> Streamer"
  writeToSpecificExtent ::
    "Streamer \<Rightarrow> ExtentRequest \<Rightarrow> go_int \<Rightarrow> go_int \<Rightarrow> DataPartition option \<Rightarrow> bool
      \<Rightarrow> (go_int \<times> error option) \<times> Streamer"
  UpdateExpiredExtentCache :: "Streamer \<Rightarrow> Streamer"
  read :: "Streamer \<Rightarrow> byte list \<Rightarrow> uint64 \<Rightarrow> go_int \<Rightarrow> (go_int \<times> bool \<times> error option) \<times> Streamer"
  IsExpired :: "ExtentCache \<Rightarrow> int \<Rightarrow> bool"
  Size :: "ExtentCache \<Rightarrow> uint64 \<times> uint64"

text \<open>
  Modelled from the spec: \<^verbatim>\<open>appendOverWriteReq\<close> is declared outside \<^verbatim>\<open>src/\<close>. By the
  spec the overwrite requests are appended to the overwrite buffer of the streamer; the
  number it returns is the size of the buffered request.
\<close>

definition appendOverWriteReq :: "Streamer \<Rightarrow> ExtentRequest \<Rightarrow> bool \<Rightarrow> go_int \<times> Streamer" where
  "appendOverWriteReq s req direct =
     (req_Size req, s\<lparr>overWriteReq := overWriteReq s @ [(req, direct)]\<rparr>)"

subsection \<open>The client\<close>

datatype call =
    GetExtentsCall
  | WriteReq
  | AppendOverWrite
  | FlushReq
  | TruncReq
  | ExtentMergeReq
  | ReleaseReq
  | MustReleaseReq
  | EvictReq
  | DoneSignal
  | WorkerWait
  | WriteToNewExtent
  | WriteToSpecificExtent
  | UpdateExpired
  | ReadCall

datatype event =
    StopSignal
  | WaitBackground
  | WrapperStop
  | ConnPoolClose
  | ExtentMergeSignal
  | OnStreamer uint64 call

record Wrapper =
  volName :: string
  volNotExists :: bool
  followerRead :: bool
  nearRead :: bool
  stopped :: bool


text \<open>
  The sharded map \<^verbatim>\<open>streamerConcurrentMap\<close> is one association list with distinct keys:
  a shard is chosen by the inode alone, so the shards together are one map. The order of the
  list stands for the order in which \<^verbatim>\<open>Keys()\<close> happens to enumerate. \<open>connPool\<close> is the
  package-level \<^verbatim>\<open>StreamConnPool\<close> (\<open>True\<close> when it is not nil).
\<close>

record ExtentClient =
  streamers :: registry
  originReadRate :: int64
  originWriteRate :: int64
  readRate :: uint64
  writeRate :: uint64
  readLimiter :: Limiter
  writeLimiter :: Limiter
  dataWrapper :: Wrapper
  alignSize :: int64
  maxExtentNumPerAlignArea :: int64
  forceAlignMerge :: bool
  tinySize :: go_int
  extentSize :: go_int
  autoFlush :: bool
  stopC_closed :: bool
  extentMerge :: bool
  extentMergeIno :: "uint64 list"
  ExtentMergeSleepMs :: uint64
  connPool :: bool
  trace :: "event list"

definition VolNotExists :: "Wrapper \<Rightarrow> bool" where
  "VolNotExists w = volNotExists w"

definition emit :: "event list \<Rightarrow> ExtentClient \<Rightarrow> ExtentClient" where
  "emit es client = client\<lparr>trace := trace client @ es\<rparr>"

text \<open>
  The streamer is a pointer in the source: what a call changes in it is seen through the
  registry. \<open>commit\<close> writes the streamer back and records the calls made on it.
\<close>

definition commit :: "uint64 \<Rightarrow> Streamer \<Rightarrow> call list \<Rightarrow> ExtentClient \<Rightarrow> ExtentClient" where
  "commit ino s calls client =
     emit (map (OnStreamer ino) calls) (client\<lparr>streamers := AList.update ino s (streamers client)\<rparr>)"

definition GetStreamer :: "ExtentClient \<Rightarrow> uint64 \<Rightarrow> Streamer option" where
  "GetStreamer client ino = map_of (streamers client) ino"

text \<open>Modelled from the spec: \<^verbatim>\<open>Keys()\<close> of the registry, a snapshot of its keys.\<close>

definition Keys :: "registry \<Rightarrow> uint64 list" where
  "Keys reg = map fst reg"

text \<open>\<^verbatim>\<open>s.once.Do(func() { s.GetExtents(ctx) })\<close>: the result of the fetch is dropped.\<close>

definition once_Do_GetExtents :: "StreamerOps \<Rightarrow> Streamer \<Rightarrow> Streamer \<times> call list" where
  "once_Do_GetExtents ops s =
     (if once s then (s, [])
      else ((snd (GetExtents ops s))\<lparr>once := True\<rparr>, [GetExtentsCall]))"

definition len :: "byte list \<Rightarrow> go_int" where
  "len data = of_nat (length data)"

subsection \<open>Stream lifecycle\<close>

definition CloseStream :: "StreamerOps \<Rightarrow> ExtentClient \<Rightarrow> uint64 \<Rightarrow> error option \<times> ExtentClient" where
  "CloseStream ops client ino =
     (case map_of (streamers client) ino of
        None \<Rightarrow> (None, client)
      | Some s \<Rightarrow>
          (let (err, reg) = IssueReleaseRequest ops s (streamers client)
           in (err, emit [OnStreamer ino ReleaseReq] (client\<lparr>streamers := reg\<rparr>))))"

definition MustCloseStream :: "StreamerOps \<Rightarrow> ExtentClient \<Rightarrow> uint64 \<Rightarrow> error option \<times> ExtentClient" where
  "MustCloseStream ops client ino =
     (case map_of (streamers client) ino of
        None \<Rightarrow> (None, client)
      | Some s \<Rightarrow>
          (let (err, reg) = IssueMustReleaseRequest ops s (streamers client)
           in (err, emit [OnStreamer ino MustReleaseReq] (client\<lparr>streamers := reg\<rparr>))))"

definition EvictStream :: "StreamerOps \<Rightarrow> ExtentClient \<Rightarrow> uint64 \<Rightarrow> error option \<times> ExtentClient" where
  "EvictStream ops client ino =
     (case map_of (streamers client) ino of
        None \<Rightarrow> (None, client)
      | Some s \<Rightarrow>
          (let (err, reg) = IssueEvictRequest ops s (streamers client);
               c1 = emit [OnStreamer ino EvictReq] (client\<lparr>streamers := reg\<rparr>)
           in if err \<noteq> None then (err, c1)
              else (None, emit [OnStreamer ino DoneSignal, OnStreamer ino WorkerWait] c1)))"

definition FileSize ::
  "StreamerOps \<Rightarrow> ExtentClient \<Rightarrow> uint64 \<Rightarrow> (uint64 \<times> uint64 \<times> bool) \<times> ExtentClient" where
  "FileSize ops client ino =
     (case GetStreamer client ino of
        None \<Rightarrow> ((0, 0, False), client)
      | Some s \<Rightarrow> (let (sz, gen) = Size ops (extents s) in ((sz, gen, True), client)))"

subsection \<open>Write, SyncWrite, Truncate, Flush\<close>

fun hasAppendWrite :: "ExtentRequest list \<Rightarrow> bool" where
  "hasAppendWrite [] = False"
| "hasAppendWrite (req # requests) =
     (if req_ExtentKey req = None then True else hasAppendWrite requests)"

text \<open>The loop \<^verbatim>\<open>for _, req := range requests { write += s.appendOverWriteReq(req, direct) }\<close>.\<close>

fun appendOverWriteReqs :: "Streamer \<Rightarrow> ExtentRequest list \<Rightarrow> bool \<Rightarrow> go_int \<Rightarrow> go_int \<times> Streamer" where
  "appendOverWriteReqs s [] direct write = (write, s)"
| "appendOverWriteReqs s (req # requests) direct write =
     (let (n, s') = appendOverWriteReq s req direct
      in appendOverWriteReqs s' requests direct (write + n))"

definition Write ::
  "StreamerOps \<Rightarrow> ExtentClient \<Rightarrow> uint64 \<Rightarrow> uint64 \<Rightarrow> byte list \<Rightarrow> bool \<Rightarrow> bool
    \<Rightarrow> (go_int \<times> bool \<times> error option) \<times> ExtentClient" where
  "Write ops client ino off data direct overWriteBuffer =
     (if VolNotExists (dataWrapper client) then ((0, False, Some ErrVolNotExists), client)
      else case GetStreamer client ino of
        None \<Rightarrow>
          (let pre = ''Write{ino('' @ Sprint_nat (unat ino) @ '')offset('' @ Sprint_nat (unat off)
                 @ '')size('' @ Sprint_nat (length data) @ '')}''
           in ((0, False, Some (Errorf (''Prefix('' @ pre @ ''): stream is not opened yet''))), client))
      | Some s \<Rightarrow>
          (let (s1, calls) = once_Do_GetExtents ops s
           in if \<not> initialized (extents s1)
              then ((0, False, Some ErrGetExtentsFailed), commit ino s1 calls client)
              else if overWriteBuffer then
                (let requests = PrepareRequests ops (extents s1) off (len data) data
                 in if hasAppendWrite requests then
                      (let (res, s2) = IssueWriteRequest ops s1 off data direct overWriteBuffer
                       in (res, commit ino s2 (calls @ [WriteReq]) client))
                    else
                      (let (write, s2) = appendOverWriteReqs s1 requests direct 0
                       in ((write, False, None),
                           commit ino s2 (calls @ map (\<lambda>req. AppendOverWrite) requests) client)))
              else
                (let (res, s2) = IssueWriteRequest ops s1 off data direct overWriteBuffer
                 in (res, commit ino s2 (calls @ [WriteReq]) client))))"

text \<open>
  \<^verbatim>\<open>SyncWrite\<close> reads \<^verbatim>\<open>dp.PartitionID\<close> after a write without error: where
  \<^verbatim>\<open>writeToNewExtent\<close> gave no partition then, the source dereferences nil and panics.
\<close>

datatype panic = NilDereference | CloseOfClosedChannel

definition SyncWrite ::
  "StreamerOps \<Rightarrow> ExtentClient \<Rightarrow> uint64 \<Rightarrow> uint64 \<Rightarrow> byte list
    \<Rightarrow> (panic + DataPartition option \<times> go_int \<times> ExtentKey option \<times> error option) \<times> ExtentClient" where
  "SyncWrite ops client ino off data =
     (if VolNotExists (dataWrapper client) then (Inr (None, 0, None, Some ErrVolNotExists), client)
      else
        (let pre = ''SyncWrite{ino('' @ Sprint_nat (unat ino) @ '')offset('' @ Sprint_nat (unat off)
               @ '')size('' @ Sprint_nat (length data) @ '')}''
         in case GetStreamer client ino of
           None \<Rightarrow>
             (Inr (None, 0, None, Some (Errorf (''Prefix('' @ pre @ ''): stream is not opened yet''))),
              client)
         | Some s \<Rightarrow>
             (let oriReq = \<lparr>req_FileOffset = off, req_Size = len data, req_Data = data,
                            req_ExtentKey = None\<rparr>;
                  ((dp, exID, write, err), s1) = writeToNewExtent ops s oriReq True;
                  c1 = commit ino s1 [WriteToNewExtent] client
              in if err \<noteq> None then (Inr (dp, write, None, err), c1)
                 else case dp of
                   None \<Rightarrow> (Inl NilDereference, c1)
                 | Some d \<Rightarrow>
                     (Inr (dp, write,
                           Some \<lparr>PartitionId = PartitionID d, ExtentId = exID, ExtentOffset = 0,
                                 ek_FileOffset = off, ek_Size = ucast (len data)\<rparr>,
                           None),
                      c1))))"

definition SyncWriteToSpecificExtent ::
  "StreamerOps \<Rightarrow> ExtentClient \<Rightarrow> DataPartition option \<Rightarrow> uint64 \<Rightarrow> uint64 \<Rightarrow> go_int \<Rightarrow> byte list
    \<Rightarrow> go_int \<Rightarrow> (go_int \<times> error option) \<times> ExtentClient" where
  "SyncWriteToSpecificExtent ops client dp ino fileOffset extentOffset data extID =
     (if VolNotExists (dataWrapper client) then ((0, Some ErrVolNotExists), client)
      else
        (let pre = ''SyncWriteToExtent{ino('' @ Sprint_nat (unat ino) @ '')fileOffset(''
               @ Sprint_nat (unat fileOffset) @ '')extentOffset('' @ Sprint_int (sint extentOffset)
               @ '')size('' @ Sprint_nat (length data) @ '')}''
         in case GetStreamer client ino of
           None \<Rightarrow> ((0, Some (Errorf (''prefix('' @ pre @ ''): stream is not opened yet''))), client)
         | Some s \<Rightarrow>
             (let oriReq = \<lparr>req_FileOffset = fileOffset, req_Size = len data, req_Data = data,
                            req_ExtentKey = None\<rparr>;
                  (res, s1) = writeToSpecificExtent ops s oriReq extID extentOffset dp True
              in (res, commit ino s1 [WriteToSpecificExtent] client))))"

definition Truncate ::
  "StreamerOps \<Rightarrow> ExtentClient \<Rightarrow> uint64 \<Rightarrow> uint64 \<Rightarrow> error option \<times> ExtentClient" where
  "Truncate ops client ino sz =
     (if VolNotExists (dataWrapper client) then (Some ErrVolNotExists, client)
      else
        (let pre = ''Truncate{ino('' @ Sprint_nat (unat ino) @ '')size('' @ Sprint_nat (unat sz) @ '')}''
         in case GetStreamer client ino of
           None \<Rightarrow> (Some (Errorf (''Prefix('' @ pre @ ''): stream is not opened yet'')), client)
         | Some s \<Rightarrow>
             (let (s1, calls) = once_Do_GetExtents ops s
              in if \<not> initialized (extents s1)
                 then (Some ErrGetExtentsFailed, commit ino s1 calls client)
                 else
                   (let (err, s2) = IssueTruncRequest ops s1 sz;
                        c1 = commit ino s2 (calls @ [TruncReq]) client
                    in case err of
                         None \<Rightarrow> (None, c1)
                       | Some e \<Rightarrow> (Some (Trace e pre), c1)))))"

definition Flush :: "StreamerOps \<Rightarrow> ExtentClient \<Rightarrow> uint64 \<Rightarrow> error option \<times> ExtentClient" where
  "Flush ops client ino =
     (if VolNotExists (dataWrapper client) then (Some ErrVolNotExists, client)
      else case GetStreamer client ino of
        None \<Rightarrow>
          (Some (Errorf (''Flush: stream is not opened yet, ino('' @ Sprint_nat (unat ino) @ '')'')),
           client)
      | Some s \<Rightarrow>
          (let (err, s1) = IssueFlushRequest ops s
           in (err, commit ino s1 [FlushReq] client)))"

subsection \<open>Read and ExtentMerge\<close>

text \<open>\<^verbatim>\<open>err != nil && strings.Contains(err.Error(), proto.ExtentNotFoundError.Error())\<close>.\<close>

definition containsExtentNotFound :: "error option \<Rightarrow> bool" where
  "containsExtentNotFound err =
     (case err of None \<Rightarrow> False | Some e \<Rightarrow> Contains (Error e) (Error ExtentNotFoundError))"

text \<open>
  \<^verbatim>\<open>Read\<close>. The bytes that \<^verbatim>\<open>s.read\<close> places in the buffer are not part of the model.
  When the flush or the refetch of the retry path fails, the source returns with the count and
  the hole flag of the first attempt and the new error.
\<close>

definition Read ::
  "StreamerOps \<Rightarrow> ExtentClient \<Rightarrow> uint64 \<Rightarrow> byte list \<Rightarrow> uint64 \<Rightarrow> go_int
    \<Rightarrow> (go_int \<times> bool \<times> error option) \<times> ExtentClient" where
  "Read ops client ino data off sz =
     (if sz = 0 then ((0, False, None), client)
      else if VolNotExists (dataWrapper client) then ((0, False, Some ErrVolNotExists), client)
      else case GetStreamer client ino of
        None \<Rightarrow>
          ((0, False,
            Some (Errorf (''Read: stream is not opened yet, ino('' @ Sprint_nat (unat ino)
              @ '') offset('' @ Sprint_nat (unat off) @ '') size('' @ Sprint_int (sint sz) @ '')''))),
           client)
      | Some s \<Rightarrow>
          (let (s1, calls) = once_Do_GetExtents ops s
           in if \<not> initialized (extents s1)
              then ((0, False, Some ErrGetExtentsFailed), commit ino s1 calls client)
              else
                (let s2 = UpdateExpiredExtentCache ops s1;
                     ((n1, hasHole1, err1), s3) = read ops s2 data off sz;
                     calls1 = calls @ [UpdateExpired, ReadCall]
                 in if containsExtentNotFound err1 then
                      (if \<not> IsExpired ops (extents s3) 1
                       then ((n1, hasHole1, err1), commit ino s3 calls1 client)
                       else
                         (let (ferr, s4) = IssueFlushRequest ops s3
                          in if ferr \<noteq> None
                             then ((n1, hasHole1, ferr), commit ino s4 (calls1 @ [FlushReq]) client)
                             else
                               (let (gerr, s5) = GetExtents ops s4
                                in if gerr \<noteq> None
                                   then ((n1, hasHole1, gerr),
                                         commit ino s5 (calls1 @ [FlushReq, GetExtentsCall]) client)
                                   else
                                     (let (res2, s6) = read ops s5 data off sz
                                      in (res2,
                                          commit ino s6
                                            (calls1 @ [FlushReq, GetExtentsCall, ReadCall]) client)))))
                    else ((n1, hasHole1, err1), commit ino s3 calls1 client))))"

definition ExtentMerge ::
  "StreamerOps \<Rightarrow> ExtentClient \<Rightarrow> uint64 \<Rightarrow> (bool \<times> error option) \<times> ExtentClient" where
  "ExtentMerge ops client ino =
     (case GetStreamer client ino of
        None \<Rightarrow> ((True, Some (Errorf ''stream is not opened yet'')), client)
      | Some s \<Rightarrow>
          (let (s1, calls) = once_Do_GetExtents ops s
           in if \<not> initialized (extents s1)
              then ((True, Some ErrGetExtentsFailed), commit ino s1 calls client)
              else
                (let (res, s2) = IssueExtentMergeRequest ops s1
                 in (res, commit ino s2 (calls @ [ExtentMergeReq]) client))))"

subsection \<open>Rates\<close>

definition GetRate :: "ExtentClient \<Rightarrow> string" where
  "GetRate client =
     ''read: '' @ getRate (readLimiter client) @ [CHR 0x0A]
       @ ''write: '' @ getRate (writeLimiter client) @ [CHR 0x0A]"

definition SetReadRate :: "ExtentClient \<Rightarrow> go_int \<Rightarrow> string \<times> ExtentClient" where
  "SetReadRate client val =
     (let (str, lim) = setRate (readLimiter client) val
      in (str, client\<lparr>originReadRate := val, readLimiter := lim\<rparr>))"

definition SetWriteRate :: "ExtentClient \<Rightarrow> go_int \<Rightarrow> string \<times> ExtentClient" where
  "SetWriteRate client val =
     (let (str, lim) = setRate (writeLimiter client) val
      in (str, client\<lparr>originWriteRate := val, writeLimiter := lim\<rparr>))"







subsection \<open>Close\<close>

fun release_streamers :: "StreamerOps \<Rightarrow> ExtentClient \<Rightarrow> uint64 list \<Rightarrow> ExtentClient" where
  "release_streamers ops client [] = client"
| "release_streamers ops client (ino # inodes) =
     (let (e1, c1) = Flush ops client ino;
          (e2, c2) = MustCloseStream ops c1 ino;
          (e3, c3) = EvictStream ops c2 ino
      in release_streamers ops c3 inodes)"

text \<open>
  \<^verbatim>\<open>Close\<close>. Closing a channel that is closed already panics in Go, so a second call stops
  at its first statement. \<^verbatim>\<open>dataWrapper.Stop()\<close> is declared outside \<^verbatim>\<open>src/\<close>: it is the
  event \<open>WrapperStop\<close> and sets the flag \<open>stopped\<close>.
\<close>

definition Close :: "StreamerOps \<Rightarrow> ExtentClient \<Rightarrow> (panic + error option) \<times> ExtentClient" where
  "Close ops client =
     (if stopC_closed client then (Inl CloseOfClosedChannel, client)
      else
        (let c1 = emit [StopSignal] (client\<lparr>stopC_closed := True\<rparr>);
             c2 = emit [WaitBackground] c1;
             c3 = emit [WrapperStop] (c2\<lparr>dataWrapper := (dataWrapper c2)\<lparr>stopped := True\<rparr>\<rparr>);
             inodes = Keys (streamers c3)
         in (Inr None, release_streamers ops c3 inodes)))"

definition CloseConnPool :: "ExtentClient \<Rightarrow> ExtentClient" where
  "CloseConnPool client =
     (if connPool client then emit [ConnPoolClose] (client\<lparr>connPool := False\<rparr>) else client)"

subsection \<open>The extent size\<close>

text \<open>
  The loop of \<^verbatim>\<open>SetExtentSize\<close> doubles \<open>i\<close> until it exceeds \<open>sz\<close>; it has no other exit,
  and the product wraps around in 64 bits, so the loop is a partial function.
\<close>

partial_function (option) round_up_loop :: "go_int \<Rightarrow> go_int \<Rightarrow> go_int option" where
  "round_up_loop i sz = (if sz <s i then Some i else round_up_loop (i * 2) sz)"

declare round_up_loop.simps [code]

definition SetExtentSize :: "ExtentClient \<Rightarrow> go_int \<Rightarrow> ExtentClient option" where
  "SetExtentSize c sz =
     (if sz = 0 then Some (c\<lparr>extentSize := ExtentSize\<rparr>)
      else if ExtentSize <s sz then Some (c\<lparr>extentSize := ExtentSize\<rparr>)
      else if sz <s MinExtentSize then Some (c\<lparr>extentSize := MinExtentSize\<rparr>)
      else if sz AND (sz - 1) \<noteq> 0
      then (case round_up_loop MinExtentSize sz of
              None \<Rightarrow> None
            | Some i \<Rightarrow> Some (c\<lparr>extentSize := i\<rparr>))
      else Some (c\<lparr>extentSize := sz\<rparr>))"

subsection \<open>The constructor\<close>

text \<open>
  \<^verbatim>\<open>new(ExtentClient)\<close>: every field has its zero value. The two limiters and the wrapper
  are nil pointers there; they are shown as zero records and are set before they are read.
\<close>

definition new_ExtentClient :: ExtentClient where
  "new_ExtentClient =
     \<lparr>streamers = [], originReadRate = 0, originWriteRate = 0, readRate = 0, writeRate = 0,
      readLimiter = \<lparr>limit = rate_Limit 0, burst = 0\<rparr>,
      writeLimiter = \<lparr>limit = rate_Limit 0, burst = 0\<rparr>,
      dataWrapper = \<lparr>volName = [], volNotExists = False, followerRead = False, nearRead = False,
                     stopped = False\<rparr>,
      alignSize = 0, maxExtentNumPerAlignArea = 0, forceAlignMerge = False, tinySize = 0,
      extentSize = 0, autoFlush = False, stopC_closed = False, extentMerge = False,
      extentMergeIno = [], ExtentMergeSleepMs = 0, connPool = True, trace = []\<rparr>"


subsection \<open>A concrete collaborator\<close>

text \<open>
  One implementation of the methods of the streamer, and a client with two open streams, on
  which the facade is evaluated below. In \<open>test_ops\<close> a read fails with
  \<^verbatim>\<open>ExtentNotFoundError\<close> while the cache holds no key, a fetch of the extents installs one
  key, and the cache always counts as expired. In \<open>fresh_ops\<close> the cache never counts as
  expired, in \<open>stuck_ops\<close> a flush fails, in \<open>unfetched_ops\<close> a fetch of the extents
  fails.
\<close>

definition test_key :: ExtentKey where
  "test_key = \<lparr>PartitionId = 7, ExtentId = 9, ExtentOffset = 0, ek_FileOffset = 0, ek_Size = 1024\<rparr>"

definition test_ops :: StreamerOps where
  "test_ops =
     \<lparr>GetExtents = (\<lambda>s. (None, s\<lparr>extents := (extents s)\<lparr>initialized := True, ec_keys := [test_key]\<rparr>\<rparr>)),
      PrepareRequests = (\<lambda>cache off sz data.
         [\<lparr>req_FileOffset = off, req_Size = sz, req_Data = data,
           req_ExtentKey = (if uint off + sint sz \<le> uint (ec_size cache) then Some test_key else None)\<rparr>]),
      IssueWriteRequest = (\<lambda>s off data direct ow. ((len data, False, None), s)),
      IssueFlushRequest = (\<lambda>s. (None, s\<lparr>overWriteReq := []\<rparr>)),
      IssueTruncRequest = (\<lambda>s sz. (None, s\<lparr>extents := (extents s)\<lparr>ec_size := sz\<rparr>\<rparr>)),
      IssueExtentMergeRequest = (\<lambda>s. ((True, None), s)),
      IssueReleaseRequest = (\<lambda>s reg. (None, reg)),
      IssueMustReleaseRequest = (\<lambda>s reg. (None, reg)),
      IssueEvictRequest = (\<lambda>s reg. (None, AList.delete (inode s) reg)),
      writeToNewExtent = (\<lambda>s req sync. ((Some \<lparr>PartitionID = 1\<rparr>, 1, req_Size req, None), s)),
      writeToSpecificExtent = (\<lambda>s req extID extentOffset dp sync. ((req_Size req, None), s)),
      UpdateExpiredExtentCache = (\<lambda>s. s),
      read = (\<lambda>s data off sz.
         if ec_keys (extents s) = [] then ((0, False, Some ExtentNotFoundError), s)
         else ((sz, False, None), s)),
      IsExpired = (\<lambda>cache secs. True),
      Size = (\<lambda>cache. (ec_size cache, ec_gen cache))\<rparr>"

definition fresh_ops :: StreamerOps where
  "fresh_ops = test_ops\<lparr>IsExpired := (\<lambda>cache secs. False)\<rparr>"

definition stuck_ops :: StreamerOps where
  "stuck_ops = test_ops\<lparr>IssueFlushRequest := (\<lambda>s. (Some (Errorf ''flush failed''), s))\<rparr>"

definition unfetched_ops :: StreamerOps where
  "unfetched_ops = test_ops\<lparr>GetExtents := (\<lambda>s. (Some (Errorf ''get extents failed''), s))\<rparr>"

definition test_streamer :: "uint64 \<Rightarrow> Streamer" where
  "test_streamer ino =
     \<lparr>inode = ino,
      extents = \<lparr>initialized = True, ec_size = 1024, ec_gen = 3, ec_keys = []\<rparr>,
      once = True, overWriteReq = []\<rparr>"

definition test_client :: ExtentClient where
  "test_client =
     new_ExtentClient
       \<lparr>streamers := [(1, test_streamer 1), (2, test_streamer 2)],
        readLimiter := NewLimiter rate_Inf defaultReadLimitBurst,
        writeLimiter := NewLimiter rate_Inf defaultWriteLimitBurst,
        dataWrapper := \<lparr>volName = ''vol'', volNotExists = False, followerRead = False,
                         nearRead = False, stopped = False\<rparr>,
        extentSize := ExtentSize\<rparr>"

text \<open>
  A read buffer of eight bytes, the streamer after a fetch of the extents, the two requests
  that \<open>test_ops\<close> prepares for three bytes written at offset 0 (inside the file of 1024
  bytes) and at offset 2000 (past its end), and the test client after \<^verbatim>\<open>Close\<close>.
\<close>

definition test_buf :: "byte list" where
  "test_buf = replicate 8 0"

definition fetched_streamer :: "uint64 \<Rightarrow> Streamer" where
  "fetched_streamer ino =
     (test_streamer ino)\<lparr>extents := (extents (test_streamer ino))\<lparr>ec_keys := [test_key]\<rparr>\<rparr>"



definition closed_client :: ExtentClient where
  "closed_client =
     test_client
       \<lparr>streamers := [],
        dataWrapper := (dataWrapper test_client)\<lparr>stopped := True\<rparr>,
        stopC_closed := True,
        trace :=
          [StopSignal, WaitBackground, WrapperStop,
           OnStreamer 1 FlushReq, OnStreamer 1 MustReleaseReq, OnStreamer 1 EvictReq,
           OnStreamer 1 DoneSignal, OnStreamer 1 WorkerWait,
           OnStreamer 2 FlushReq, OnStreamer 2 MustReleaseReq, OnStreamer 2 EvictReq,
           OnStreamer 2 DoneSignal, OnStreamer 2 WorkerWait]\<rparr>"

text \<open>The same client after the partition wrapper has learnt that the volume is gone.\<close>

definition gone_client :: ExtentClient where
  "gone_client = test_client\<lparr>dataWrapper := (dataWrapper test_client)\<lparr>volNotExists := True\<rparr>\<rparr>"






subsection \<open>The rate rule in the words of the spec\<close>


section \<open>Properties\<close>

subsection \<open>The coercion of the extent size\<close>

text \<open>
  A positive 64-bit integer \<open>w\<close> is a power of two exactly when \<open>w AND (w - 1)\<close> is zero.
\<close>

lemma and_pred_even: "(2 * m) AND (2 * m - 1) = 2 * (m AND (m - 1))" for m :: int
proof -
  have "(2 * m - 1) div 2 = m - 1" by simp
  then show ?thesis
    by (subst and_int_rec) simp
qed

lemma and_pred_odd: "(2 * m + 1) AND (2 * m + 1 - 1) = 2 * m" for m :: int
  by (subst and_int_rec) simp

lemma and_pred_zero_imp_pow2:
  fixes n :: int
  shows "0 < n \<Longrightarrow> n AND (n - 1) = 0 \<Longrightarrow> \<exists>k. n = 2 ^ k"
proof (induction "nat n" arbitrary: n rule: less_induct)
  case less
  show ?case
  proof (cases "even n")
    case True
    then obtain m where m: "n = 2 * m" by (auto elim: evenE)
    with less.prems have mpos: "0 < m" by simp
    from less.prems(2) m have "m AND (m - 1) = 0"
      by (simp add: and_pred_even)
    moreover have "nat m < nat n" using m mpos by simp
    ultimately obtain k where "m = 2 ^ k"
      using less.hyps mpos by blast
    then have "n = 2 ^ Suc k" using m by simp
    then show ?thesis by blast
  next
    case False
    then obtain m where m: "n = 2 * m + 1" by (auto elim: oddE)
    from less.prems(2) have "2 * m = 0"
      unfolding m and_pred_odd .
    then have "n = 2 ^ 0" using m by simp
    then show ?thesis by blast
  qed
qed

lemma pow2_and_pred_zero: "(2 ^ k) AND (2 ^ k - 1) = (0 :: int)"
proof (induction k)
  case 0 show ?case by simp
next
  case (Suc k)
  have "(2 ^ Suc k) AND (2 ^ Suc k - 1) = (2 * 2 ^ k) AND (2 * 2 ^ k - 1 :: int)" by simp
  also have "\<dots> = 2 * ((2 ^ k) AND (2 ^ k - 1))" by (rule and_pred_even)
  finally show ?case using Suc by simp
qed

lemma one_le_uint:
  fixes w :: go_int
  assumes "w \<noteq> 0"
  shows "1 \<le> uint w"
  by (simp add: assms int_one_le_iff_zero_less order_less_le uint_0_iff)

lemma uint_and_pred:
  fixes w :: go_int
  assumes "w \<noteq> 0"
  shows "uint (w AND (w - 1)) = uint w AND (uint w - 1)"
proof -
  have "uint (1 :: go_int) \<le> uint w"
    using one_le_uint [OF assms] by simp
  then show ?thesis by (simp add: uint_and uint_sub_if')
qed

lemma uint_eq_sint_nonneg:
  fixes w :: go_int
  assumes "0 \<le> sint w"
  shows "uint w = sint w"
proof -
  have "sint w < 2 ^ 63" using sint_less [of w] by simp
  then have lt: "sint w < 2 ^ 64" by simp
  have "uint w = uint (word_of_int (sint w) :: go_int)" by simp
  also have "\<dots> = take_bit 64 (sint w)" by (simp only: uint_word_of_int_eq) simp
  also have "\<dots> = sint w" using assms lt by (simp add: take_bit_int_eq_self)
  finally show ?thesis .
qed

lemma and_pred_word_iff:
  fixes w :: go_int
  assumes "0 < sint w"
  shows "(w AND (w - 1) = 0) = (\<exists>k. sint w = 2 ^ k)"
proof -
  have nz: "w \<noteq> 0" using assms by auto
  have u: "uint w = sint w" using assms by (simp add: uint_eq_sint_nonneg)
  have "(w AND (w - 1) = 0) = (uint (w AND (w - 1)) = 0)"
    by (simp add: uint_0_iff)
  also have "\<dots> = (sint w AND (sint w - 1) = 0)"
    by (simp add: uint_and_pred [OF nz] u)
  also have "\<dots> = (\<exists>k. sint w = 2 ^ k)"
    using and_pred_zero_imp_pow2 [OF assms] pow2_and_pred_zero by metis
  finally show ?thesis .
qed

lemma sint_pow2:
  assumes "k < 63"
  shows "sint (2 ^ k :: go_int) = 2 ^ k"
proof -
  have "(2 ^ k :: int) < 2 ^ 63"
    by (rule power_strict_increasing) (use assms in simp_all)
  moreover have "- (2 ^ 63) \<le> (0 :: int)" by simp
  then have "- (2 ^ 63) \<le> (2 ^ k :: int)"
    by (rule order_trans) simp
  moreover have "(2 ^ k :: go_int) = word_of_int (2 ^ k)" by simp
  ultimately show ?thesis
    by (simp only: sint_sbintrunc') (simp add: signed_take_bit_int_eq_self)
qed

lemma round_up_loop_from:
  fixes sz :: go_int
  assumes top: "sint sz < 2 ^ 27"
  shows "k + n = 27 \<Longrightarrow> 2 ^ k \<le> 2 * sint sz \<Longrightarrow>
    \<exists>j. k \<le> j \<and> j \<le> 27 \<and> round_up_loop (2 ^ k) sz = Some (2 ^ j)
      \<and> sint sz < 2 ^ j \<and> 2 ^ j \<le> 2 * sint sz"
proof (induction n arbitrary: k)
  case 0
  then have k: "k = 27" by simp
  have "sz <s 2 ^ 27" using top by (simp add: word_sless_alt)
  then have "round_up_loop (2 ^ 27) sz = Some (2 ^ 27)"
    by (subst round_up_loop.simps) simp
  with top 0 k show ?case by blast
next
  case (Suc n)
  then have k: "k < 27" by simp
  then have sk: "sint (2 ^ k :: go_int) = 2 ^ k" by (simp add: sint_pow2)
  show ?case
  proof (cases "sint sz < 2 ^ k")
    case True
    then have "sz <s 2 ^ k" by (simp add: word_sless_alt sk)
    then have "round_up_loop (2 ^ k) sz = Some (2 ^ k)"
      by (subst round_up_loop.simps) simp
    with True Suc.prems k show ?thesis by auto
  next
    case False
    then have nl: "\<not> sz <s 2 ^ k" by (simp add: word_sless_alt sk)
    have step: "round_up_loop (2 ^ k) sz = round_up_loop (2 ^ Suc k) sz"
      by (subst round_up_loop.simps) (simp add: nl mult.commute)
    from False have "2 ^ Suc k \<le> 2 * sint sz" by simp
    moreover have "Suc k + n = 27" using Suc.prems by simp
    ultimately obtain j where "Suc k \<le> j" "j \<le> 27"
      "round_up_loop (2 ^ Suc k) sz = Some (2 ^ j)" "sint sz < 2 ^ j" "2 ^ j \<le> 2 * sint sz"
      using Suc.IH by blast
    with step show ?thesis by (intro exI [of _ j]) simp
  qed
qed

lemma in_range_sint:
  fixes sz :: go_int
  assumes "MinExtentSize <=s sz" "sz <=s ExtentSize"
  shows "2 ^ 20 \<le> sint sz" "sint sz \<le> 2 ^ 27"
  using assms by (simp_all add: word_sle_eq MinExtentSize_def ExtentSize_def)

lemma SetExtentSize_round_up:
  fixes sz :: go_int
  assumes lo: "MinExtentSize <=s sz" and hi: "sz <=s ExtentSize"
    and np: "\<forall>k. sint sz \<noteq> 2 ^ k"
  shows "\<exists>k. SetExtentSize c sz = Some (c\<lparr>extentSize := 2 ^ k\<rparr>) \<and> k \<le> 27
            \<and> sint sz < 2 ^ k \<and> 2 ^ k < 2 * sint sz"
proof -
  have r: "2 ^ 20 \<le> sint sz" "sint sz \<le> 2 ^ 27" using in_range_sint [OF lo hi] .
  then have pos: "0 < sint sz" by simp
  have nz: "sz \<noteq> 0" using pos by auto
  have c1: "\<not> ExtentSize <s sz" using hi by (simp add: word_sless_alt word_sle_eq)
  have c2: "\<not> sz <s MinExtentSize" using lo by (simp add: word_sless_alt word_sle_eq)
  have c3: "sz AND (sz - 1) \<noteq> 0" using np and_pred_word_iff [OF pos] by simp
  have "sint sz \<noteq> 2 ^ 27" using np by blast
  with r have top: "sint sz < 2 ^ 27" by simp
  have "(2::int) ^ 20 \<le> 2 * sint sz" using r by simp
  with round_up_loop_from [OF top, of 20 7]
  obtain j where j: "j \<le> 27" "round_up_loop (2 ^ 20) sz = Some (2 ^ j)"
      "sint sz < 2 ^ j" "2 ^ j \<le> 2 * sint sz"
    by auto
  have "j \<noteq> 0" using j(3) r by (cases j) auto
  then obtain j' where j': "j = Suc j'" by (cases j) auto
  have "sint sz \<noteq> 2 ^ j'" using np by blast
  with j(4) j' have strict: "2 ^ j < 2 * sint sz" by simp
  have "SetExtentSize c sz = Some (c\<lparr>extentSize := 2 ^ j\<rparr>)"
    using nz c1 c2 c3 j(2) by (simp add: SetExtentSize_def MinExtentSize_def)
  with j strict show ?thesis by blast
qed

lemma SetExtentSize_keep:
  fixes sz :: go_int
  assumes lo: "MinExtentSize <=s sz" and hi: "sz <=s ExtentSize"
    and p: "\<exists>k. sint sz = 2 ^ k"
  shows "SetExtentSize c sz = Some (c\<lparr>extentSize := sz\<rparr>)"
proof -
  have r: "2 ^ 20 \<le> sint sz" "sint sz \<le> 2 ^ 27" using in_range_sint [OF lo hi] .
  then have pos: "0 < sint sz" by simp
  have nz: "sz \<noteq> 0" using pos by auto
  have c1: "\<not> ExtentSize <s sz" using hi by (simp add: word_sless_alt word_sle_eq)
  have c2: "\<not> sz <s MinExtentSize" using lo by (simp add: word_sless_alt word_sle_eq)
  have c3: "sz AND (sz - 1) = 0" using p and_pred_word_iff [OF pos] by simp
  show ?thesis using nz c1 c2 c3 by (simp add: SetExtentSize_def)
qed

lemma three_MiB_not_pow2: "(3145728 :: int) \<noteq> 2 ^ k"
proof (cases "k \<le> 21")
  case True
  then have "(2::int) ^ k \<le> 2 ^ 21" by (rule power_increasing) simp
  then show ?thesis by simp
next
  case False
  then have "22 \<le> k" by simp
  then have "(2::int) ^ 22 \<le> 2 ^ k" by (rule power_increasing) simp
  then show ?thesis by simp
qed

lemma pow2_between_3_and_6_MiB:
  assumes "(3145728 :: int) < 2 ^ k" "(2 :: int) ^ k < 6291456"
  shows "k = 22"
proof -
  have "\<not> k \<le> 21"
  proof
    assume "k \<le> 21"
    then have "(2::int) ^ k \<le> 2 ^ 21" by (rule power_increasing) simp
    with assms(1) show False by simp
  qed
  moreover have "\<not> 23 \<le> k"
  proof
    assume "23 \<le> k"
    then have "(2::int) ^ 23 \<le> 2 ^ k" by (rule power_increasing) simp
    with assms(2) show False by simp
  qed
  ultimately show ?thesis by simp
qed

text \<open>
  Claim C5. \<^verbatim>\<open>SetExtentSize\<close> returns for every size, and the extent size it stores is:
  128 MiB for 0; 128 MiB for a size above 128 MiB; 1 MiB for any other size below 1 MiB;
  for a size from 1 MiB to 128 MiB that is not a power of two, the next power of two above
  it (the power \<open>2 ^ k\<close> with \<open>2 ^ k / 2 < size < 2 ^ k\<close>); and the size itself when it is a
  power of two in that range. No other field of the client changes.
\<close>

theorem SetExtentSize_coercion:
  fixes sz :: go_int
  shows "SetExtentSize c 0 = Some (c\<lparr>extentSize := ExtentSize\<rparr>)
    \<and> (ExtentSize <s sz \<longrightarrow> SetExtentSize c sz = Some (c\<lparr>extentSize := ExtentSize\<rparr>))
    \<and> (sz \<noteq> 0 \<and> sz <s MinExtentSize \<longrightarrow> SetExtentSize c sz = Some (c\<lparr>extentSize := MinExtentSize\<rparr>))
    \<and> (MinExtentSize <=s sz \<and> sz <=s ExtentSize \<and> (\<forall>k. sint sz \<noteq> 2 ^ k) \<longrightarrow>
         (\<exists>k. SetExtentSize c sz = Some (c\<lparr>extentSize := 2 ^ k\<rparr>) \<and> k \<le> 27
              \<and> sint sz < 2 ^ k \<and> 2 ^ k < 2 * sint sz))
    \<and> (MinExtentSize <=s sz \<and> sz <=s ExtentSize \<and> (\<exists>k. sint sz = 2 ^ k) \<longrightarrow>
         SetExtentSize c sz = Some (c\<lparr>extentSize := sz\<rparr>))"
proof (intro conjI impI)
  show "SetExtentSize c 0 = Some (c\<lparr>extentSize := ExtentSize\<rparr>)"
    by (simp add: SetExtentSize_def)
next
  assume "ExtentSize <s sz"
  moreover from this have "sz \<noteq> 0" by (auto simp: ExtentSize_def word_sless_alt)
  ultimately show "SetExtentSize c sz = Some (c\<lparr>extentSize := ExtentSize\<rparr>)"
    by (simp add: SetExtentSize_def)
next
  assume a: "sz \<noteq> 0 \<and> sz <s MinExtentSize"
  then have "\<not> ExtentSize <s sz"
    by (simp add: word_sless_alt ExtentSize_def MinExtentSize_def)
  with a show "SetExtentSize c sz = Some (c\<lparr>extentSize := MinExtentSize\<rparr>)"
    by (simp add: SetExtentSize_def)
next
  assume "MinExtentSize <=s sz \<and> sz <=s ExtentSize \<and> (\<forall>k. sint sz \<noteq> 2 ^ k)"
  then show "\<exists>k. SetExtentSize c sz = Some (c\<lparr>extentSize := 2 ^ k\<rparr>) \<and> k \<le> 27
     \<and> sint sz < 2 ^ k \<and> 2 ^ k < 2 * sint sz"
    using SetExtentSize_round_up by blast
next
  assume "MinExtentSize <=s sz \<and> sz <=s ExtentSize \<and> (\<exists>k. sint sz = 2 ^ k)"
  then show "SetExtentSize c sz = Some (c\<lparr>extentSize := sz\<rparr>)"
    using SetExtentSize_keep by blast
qed

text \<open>
  The sizes 0, 200 MiB, 4 KiB, 3 MiB and 2 MiB become 128 MiB, 128 MiB, 1 MiB, 4 MiB and
  2 MiB.
\<close>

theorem SetExtentSize_coercion_witness:
  "SetExtentSize test_client 0 = Some (test_client\<lparr>extentSize := 134217728\<rparr>)
   \<and> ExtentSize <s (209715200 :: go_int)
   \<and> SetExtentSize test_client 209715200 = Some (test_client\<lparr>extentSize := 134217728\<rparr>)
   \<and> (4096 :: go_int) \<noteq> 0 \<and> (4096 :: go_int) <s MinExtentSize
   \<and> SetExtentSize test_client 4096 = Some (test_client\<lparr>extentSize := 1048576\<rparr>)
   \<and> MinExtentSize <=s (3145728 :: go_int) \<and> (3145728 :: go_int) <=s ExtentSize
   \<and> (\<forall>k. sint (3145728 :: go_int) \<noteq> 2 ^ k)
   \<and> SetExtentSize test_client 3145728 = Some (test_client\<lparr>extentSize := 4194304\<rparr>)
   \<and> MinExtentSize <=s (2097152 :: go_int) \<and> (2097152 :: go_int) <=s ExtentSize
   \<and> (\<exists>k. sint (2097152 :: go_int) = 2 ^ k)
   \<and> SetExtentSize test_client 2097152 = Some (test_client\<lparr>extentSize := 2097152\<rparr>)"
proof -
  have h2: "ExtentSize <s (209715200 :: go_int)" by (simp add: ExtentSize_def)
  have h3: "(4096 :: go_int) \<noteq> 0 \<and> (4096 :: go_int) <s MinExtentSize"
    by (simp add: MinExtentSize_def)
  have r4: "MinExtentSize <=s (3145728 :: go_int)" "(3145728 :: go_int) <=s ExtentSize"
    by (simp_all add: MinExtentSize_def ExtentSize_def)
  have n4: "\<forall>k. sint (3145728 :: go_int) \<noteq> 2 ^ k"
    using three_MiB_not_pow2 by simp
  have r5: "MinExtentSize <=s (2097152 :: go_int)" "(2097152 :: go_int) <=s ExtentSize"
    by (simp_all add: MinExtentSize_def ExtentSize_def)
  have "sint (2097152 :: go_int) = 2 ^ 21" by simp
  then have p5: "\<exists>k. sint (2097152 :: go_int) = 2 ^ k" by (rule exI)
  note t0 = SetExtentSize_coercion [of test_client 0]
  note t2 = SetExtentSize_coercion [of test_client 209715200]
  note t3 = SetExtentSize_coercion [of test_client 4096]
  note t4 = SetExtentSize_coercion [of test_client 3145728]
  note t5 = SetExtentSize_coercion [of test_client 2097152]
  have c0: "SetExtentSize test_client 0 = Some (test_client\<lparr>extentSize := 134217728\<rparr>)"
    using t0 by (simp add: ExtentSize_def)
  have c2: "SetExtentSize test_client 209715200 = Some (test_client\<lparr>extentSize := 134217728\<rparr>)"
    using t2 h2 by (simp add: ExtentSize_def)
  have c3: "SetExtentSize test_client 4096 = Some (test_client\<lparr>extentSize := 1048576\<rparr>)"
    using t3 h3 by (simp add: MinExtentSize_def)
  from t4 r4 n4 obtain k where k: "SetExtentSize test_client 3145728 = Some (test_client\<lparr>extentSize := 2 ^ k\<rparr>)"
      "sint (3145728 :: go_int) < 2 ^ k" "2 ^ k < 2 * sint (3145728 :: go_int)"
    by blast
  from k(2,3) have "k = 22" by (intro pow2_between_3_and_6_MiB) simp_all
  with k(1) have c4: "SetExtentSize test_client 3145728 = Some (test_client\<lparr>extentSize := 4194304\<rparr>)"
    by simp
  have c5: "SetExtentSize test_client 2097152 = Some (test_client\<lparr>extentSize := 2097152\<rparr>)"
    using t5 r5 p5 by blast
  show ?thesis using c0 h2 c2 h3 c3 r4 n4 c4 r5 p5 c5 by blast
qed

subsection \<open>Setting and reading the rates\<close>

lemma not_sless_iff_sle: "(\<not> 0 <s v) = (v <=s 0)" for v :: go_int
  by (simp add: word_sless_alt word_sle_eq not_less)

text \<open>The conversion to \<^verbatim>\<open>float64\<close> keeps every integer up to \<open>2 ^ 53\<close> in magnitude.\<close>

lemma excess_bits_small: "a < 2 ^ 53 \<Longrightarrow> excess_bits a = 0"
  by (simp add: excess_bits.simps)

lemma float64_of_int_exact:
  assumes "\<bar>n\<bar> \<le> 2 ^ 53"
  shows "float64_of_int n = n"
proof (cases "\<bar>n\<bar> < 2 ^ 53")
  case True
  then have "excess_bits \<bar>n\<bar> = 0" by (rule excess_bits_small)
  then show ?thesis by (simp add: float64_of_int_def Let_def mult_sgn_abs)
next
  case False
  with assms have a: "\<bar>n\<bar> = 2 ^ 53" by simp
  have e: "excess_bits (2 ^ 53) = 1" by (simp add: excess_bits.simps)
  have "sgn n * \<bar>n\<bar> = n" by (simp add: mult_sgn_abs)
  then show ?thesis using a e by (simp add: float64_of_int_def Let_def)
qed

text \<open>
  Above \<open>2 ^ 53\<close> it rounds: \<open>2 ^ 53 + 1\<close> becomes \<open>2 ^ 53\<close>, and the largest 64-bit integer
  \<open>2 ^ 63 - 1\<close> becomes \<open>2 ^ 63\<close>, which \<^verbatim>\<open>getRate\<close> cannot convert back and prints as
  "unlimited".
\<close>

lemma float64_of_int_rounds:
  "float64_of_int 9007199254740993 = 9007199254740992"
  "float64_of_int 9223372036854775807 = 9223372036854775808"
  by code_simp+

lemma getRate_after_largest_rate:
  "getRate (snd (setRate lim 9223372036854775807)) = ''unlimited''"
  by (simp add: setRate_def SetLimit_def rate_Limit_def float64_of_int_rounds getRate_def
      int_of_Limit_def word_sless_alt)

lemma Sprint_nat_examples:
  "Sprint_nat 1048576 = ''1048576''"
  "Sprint_nat 9007199254740993 = ''9007199254740993''"
  "Sprint_nat 9007199254740992 = ''9007199254740992''"
  by (simp_all add: Sprint_nat.simps digit_def)

lemma getRate_unlimited:
  "getRate (lim\<lparr>limit := rate_Inf\<rparr>) = ''unlimited''"
  "getRate (writeLimiter test_client) = ''unlimited''"
  by (simp_all add: getRate_def test_client_def NewLimiter_def int_of_Limit_def word_sless_alt)

text \<open>
  Claim C6, as stated, fails: for a positive \<open>v\<close> the limit is not always \<open>v\<close>. After
  \<^verbatim>\<open>SetReadRate(9007199254740993)\<close>, that is \<open>2 ^ 53 + 1\<close>, the call has returned the
  decimal string of \<open>v\<close>, but the read limiter holds \<open>2 ^ 53\<close>, and \<^verbatim>\<open>GetRate\<close> reports
  that number.
\<close>

theorem setRate_rounds_counterexample:
  "0 <s (9007199254740993 :: go_int)
   \<and> SetReadRate test_client 9007199254740993 =
       (''9007199254740993'',
        test_client\<lparr>originReadRate := 9007199254740993,
                    readLimiter := (readLimiter test_client)\<lparr>limit := Float64 9007199254740992\<rparr>\<rparr>)
   \<and> Float64 9007199254740992 \<noteq> Float64 9007199254740993
   \<and> GetRate (snd (SetReadRate test_client 9007199254740993)) =
       ''read: 9007199254740992'' @ [CHR 0x0A] @ ''write: unlimited'' @ [CHR 0x0A]"
proof -
  have p: "0 <s (9007199254740993 :: go_int)" by (simp add: word_sless_alt)
  have s: "SetReadRate test_client 9007199254740993 =
       (''9007199254740993'',
        test_client\<lparr>originReadRate := 9007199254740993,
                    readLimiter := (readLimiter test_client)\<lparr>limit := Float64 9007199254740992\<rparr>\<rparr>)"
    using p
    by (simp add: SetReadRate_def setRate_def SetLimit_def rate_Limit_def float64_of_int_rounds
        Sprint_int_def Sprint_nat_examples)
  have g: "getRate ((readLimiter test_client)\<lparr>limit := Float64 9007199254740992\<rparr>)
      = ''9007199254740992''"
    by (simp add: getRate_def int_of_Limit_def word_sless_alt Sprint_int_def Sprint_nat_examples)
  have "GetRate (snd (SetReadRate test_client 9007199254740993)) =
       ''read: 9007199254740992'' @ [CHR 0x0A] @ ''write: unlimited'' @ [CHR 0x0A]"
    unfolding s by (simp add: GetRate_def g getRate_unlimited)
  with p s show ?thesis by simp
qed

text \<open>
  Claim C6, amended. For every integer \<open>v\<close>: with \<open>v \<le> 0\<close>, \<^verbatim>\<open>setRate\<close>, and through it
  \<^verbatim>\<open>SetReadRate\<close> and \<^verbatim>\<open>SetWriteRate\<close>, set the limit of the limiter to the unlimited
  sentinel \<^verbatim>\<open>rate.Inf\<close> and return the string "unlimited"; with \<open>v > 0\<close> they set the limit
  to \<^verbatim>\<open>rate.Limit(v)\<close>, the conversion of \<open>v\<close> to \<^verbatim>\<open>float64\<close>, and return the decimal
  string of \<open>v\<close>; the limit set is \<open>v\<close> itself whenever \<open>v \<le> 2 ^ 53\<close>. After
  \<^verbatim>\<open>SetReadRate(0)\<close> the text of \<^verbatim>\<open>GetRate\<close> reports "unlimited" for the read direction.
\<close>

theorem setRate_applied:
  fixes v :: go_int
  shows "(v <=s 0 \<longrightarrow>
            setRate lim v = (''unlimited'', lim\<lparr>limit := rate_Inf\<rparr>)
          \<and> SetReadRate c v =
              (''unlimited'', c\<lparr>originReadRate := v, readLimiter := (readLimiter c)\<lparr>limit := rate_Inf\<rparr>\<rparr>)
          \<and> SetWriteRate c v =
              (''unlimited'', c\<lparr>originWriteRate := v, writeLimiter := (writeLimiter c)\<lparr>limit := rate_Inf\<rparr>\<rparr>))
       \<and> (0 <s v \<longrightarrow>
            setRate lim v =
              (Sprint_int (sint v), lim\<lparr>limit := Float64 (float64_of_int (sint v))\<rparr>)
          \<and> SetReadRate c v =
              (Sprint_int (sint v),
               c\<lparr>originReadRate := v,
                 readLimiter := (readLimiter c)\<lparr>limit := Float64 (float64_of_int (sint v))\<rparr>\<rparr>)
          \<and> SetWriteRate c v =
              (Sprint_int (sint v),
               c\<lparr>originWriteRate := v,
                 writeLimiter := (writeLimiter c)\<lparr>limit := Float64 (float64_of_int (sint v))\<rparr>\<rparr>))
       \<and> (0 <s v \<and> sint v \<le> 2 ^ 53 \<longrightarrow>
            limit (snd (setRate lim v)) = Float64 (sint v)
          \<and> limit (readLimiter (snd (SetReadRate c v))) = Float64 (sint v)
          \<and> limit (writeLimiter (snd (SetWriteRate c v))) = Float64 (sint v))
       \<and> GetRate (snd (SetReadRate c 0)) =
            ''read: unlimited'' @ [CHR 0x0A] @ ''write: '' @ getRate (writeLimiter c) @ [CHR 0x0A]"
proof (intro conjI impI)
  assume "v <=s 0"
  then have n: "\<not> 0 <s v" by (simp add: not_sless_iff_sle)
  show "setRate lim v = (''unlimited'', lim\<lparr>limit := rate_Inf\<rparr>)"
    using n by (simp add: setRate_def SetLimit_def)
  show "SetReadRate c v =
      (''unlimited'', c\<lparr>originReadRate := v, readLimiter := (readLimiter c)\<lparr>limit := rate_Inf\<rparr>\<rparr>)"
    using n by (simp add: SetReadRate_def setRate_def SetLimit_def)
  show "SetWriteRate c v =
      (''unlimited'', c\<lparr>originWriteRate := v, writeLimiter := (writeLimiter c)\<lparr>limit := rate_Inf\<rparr>\<rparr>)"
    using n by (simp add: SetWriteRate_def setRate_def SetLimit_def)
next
  assume p: "0 <s v"
  show "setRate lim v =
      (Sprint_int (sint v), lim\<lparr>limit := Float64 (float64_of_int (sint v))\<rparr>)"
    using p by (simp add: setRate_def SetLimit_def rate_Limit_def)
  show "SetReadRate c v =
      (Sprint_int (sint v),
       c\<lparr>originReadRate := v,
         readLimiter := (readLimiter c)\<lparr>limit := Float64 (float64_of_int (sint v))\<rparr>\<rparr>)"
    using p by (simp add: SetReadRate_def setRate_def SetLimit_def rate_Limit_def)
  show "SetWriteRate c v =
      (Sprint_int (sint v),
       c\<lparr>originWriteRate := v,
         writeLimiter := (writeLimiter c)\<lparr>limit := Float64 (float64_of_int (sint v))\<rparr>\<rparr>)"
    using p by (simp add: SetWriteRate_def setRate_def SetLimit_def rate_Limit_def)
next
  assume a: "0 <s v \<and> sint v \<le> 2 ^ 53"
  then have p: "0 <s v" and "0 < sint v" by (simp_all add: word_sless_alt)
  with a have "\<bar>sint v\<bar> \<le> 2 ^ 53" by simp
  then have f: "float64_of_int (sint v) = sint v" by (rule float64_of_int_exact)
  show "limit (snd (setRate lim v)) = Float64 (sint v)"
    using p by (simp add: setRate_def SetLimit_def rate_Limit_def f)
  show "limit (readLimiter (snd (SetReadRate c v))) = Float64 (sint v)"
    using p by (simp add: SetReadRate_def setRate_def SetLimit_def rate_Limit_def f)
  show "limit (writeLimiter (snd (SetWriteRate c v))) = Float64 (sint v)"
    using p by (simp add: SetWriteRate_def setRate_def SetLimit_def rate_Limit_def f)
next
  show "GetRate (snd (SetReadRate c 0)) =
      ''read: unlimited'' @ [CHR 0x0A] @ ''write: '' @ getRate (writeLimiter c) @ [CHR 0x0A]"
    by (simp add: GetRate_def SetReadRate_def setRate_def SetLimit_def getRate_unlimited)
qed

text \<open>
  The rates 0, -7, 1048576 and \<open>2 ^ 53 + 1\<close> on the test client: the first two give the
  unlimited sentinel, the third is kept, the fourth is rounded.
\<close>

theorem setRate_applied_witness:
  "(0 :: go_int) <=s 0
   \<and> SetReadRate test_client 0 =
       (''unlimited'',
        test_client\<lparr>originReadRate := 0, readLimiter := (readLimiter test_client)\<lparr>limit := rate_Inf\<rparr>\<rparr>)
   \<and> (- 7 :: go_int) <=s 0
   \<and> SetWriteRate test_client (- 7) =
       (''unlimited'',
        test_client\<lparr>originWriteRate := - 7, writeLimiter := (writeLimiter test_client)\<lparr>limit := rate_Inf\<rparr>\<rparr>)
   \<and> 0 <s (1048576 :: go_int) \<and> sint (1048576 :: go_int) \<le> 2 ^ 53
   \<and> fst (SetReadRate test_client 1048576) = ''1048576''
   \<and> limit (readLimiter (snd (SetReadRate test_client 1048576))) = Float64 1048576
   \<and> 0 <s (9007199254740993 :: go_int)
   \<and> SetWriteRate test_client 9007199254740993 =
       (''9007199254740993'',
        test_client\<lparr>originWriteRate := 9007199254740993,
                    writeLimiter := (writeLimiter test_client)\<lparr>limit := Float64 9007199254740992\<rparr>\<rparr>)
   \<and> GetRate (snd (SetReadRate test_client 0)) =
       ''read: unlimited'' @ [CHR 0x0A] @ ''write: unlimited'' @ [CHR 0x0A]"
proof -
  have h0: "(0 :: go_int) <=s 0" by simp
  have h1: "(- 7 :: go_int) <=s 0" by (simp add: word_sle_eq)
  have h2: "0 <s (1048576 :: go_int)" "sint (1048576 :: go_int) \<le> 2 ^ 53"
    by (simp_all add: word_sless_alt)
  have h3: "0 <s (9007199254740993 :: go_int)" by (simp add: word_sless_alt)
  have s2: "Sprint_int (sint (1048576 :: go_int)) = ''1048576''"
    by (simp add: Sprint_int_def Sprint_nat_examples)
  have s3: "Sprint_int (sint (9007199254740993 :: go_int)) = ''9007199254740993''"
    by (simp add: Sprint_int_def Sprint_nat_examples)
  have f3: "float64_of_int (sint (9007199254740993 :: go_int)) = 9007199254740992"
    by (simp add: float64_of_int_rounds)
  note t0 = setRate_applied [where v = 0 and c = test_client]
  note t1 = setRate_applied [where v = "- 7" and c = test_client]
  note t2 = setRate_applied [where v = 1048576 and c = test_client]
  note t3 = setRate_applied [where v = 9007199254740993 and c = test_client]
  have c0: "SetReadRate test_client 0 =
       (''unlimited'',
        test_client\<lparr>originReadRate := 0, readLimiter := (readLimiter test_client)\<lparr>limit := rate_Inf\<rparr>\<rparr>)"
    using t0 h0 by blast
  have c1: "SetWriteRate test_client (- 7) =
       (''unlimited'',
        test_client\<lparr>originWriteRate := - 7, writeLimiter := (writeLimiter test_client)\<lparr>limit := rate_Inf\<rparr>\<rparr>)"
    using t1 h1 by blast
  have "SetReadRate test_client 1048576 =
       (Sprint_int (sint (1048576 :: go_int)),
        test_client\<lparr>originReadRate := 1048576,
          readLimiter := (readLimiter test_client)
            \<lparr>limit := Float64 (float64_of_int (sint (1048576 :: go_int)))\<rparr>\<rparr>)"
    using t2 h2 by blast
  then have c2: "fst (SetReadRate test_client 1048576) = ''1048576''"
    by (simp only: s2 fst_conv)
  have "limit (readLimiter (snd (SetReadRate test_client 1048576)))
      = Float64 (sint (1048576 :: go_int))"
    using t2 h2 by blast
  then have c2': "limit (readLimiter (snd (SetReadRate test_client 1048576))) = Float64 1048576"
    by simp
  have "SetWriteRate test_client 9007199254740993 =
       (Sprint_int (sint (9007199254740993 :: go_int)),
        test_client\<lparr>originWriteRate := 9007199254740993,
          writeLimiter := (writeLimiter test_client)
            \<lparr>limit := Float64 (float64_of_int (sint (9007199254740993 :: go_int)))\<rparr>\<rparr>)"
    using t3 h3 by blast
  then have c3: "SetWriteRate test_client 9007199254740993 =
       (''9007199254740993'',
        test_client\<lparr>originWriteRate := 9007199254740993,
                    writeLimiter := (writeLimiter test_client)\<lparr>limit := Float64 9007199254740992\<rparr>\<rparr>)"
    by (simp only: s3 f3)
  have "GetRate (snd (SetReadRate test_client 0)) =
      ''read: unlimited'' @ [CHR 0x0A] @ ''write: '' @ getRate (writeLimiter test_client) @ [CHR 0x0A]"
    using t0 by blast
  then have c4: "GetRate (snd (SetReadRate test_client 0)) =
       ''read: unlimited'' @ [CHR 0x0A] @ ''write: unlimited'' @ [CHR 0x0A]"
    unfolding getRate_unlimited by simp
  show ?thesis using h0 c0 h1 c1 h2 c2 c2' h3 c3 c4 by blast
qed

subsection \<open>The refresh of the rates\<close>
















subsection \<open>Facts about the test client\<close>

lemma test_client_streamers:
  "GetStreamer test_client 1 = Some (test_streamer 1)"
  "GetStreamer test_client 2 = Some (test_streamer 2)"
  "GetStreamer test_client 5 = None"
  by (simp_all add: GetStreamer_def test_client_def)

lemma test_client_vol: "\<not> VolNotExists (dataWrapper test_client)"
  by (simp add: VolNotExists_def test_client_def)

lemma test_streamer_latched:
  "once_Do_GetExtents ops (test_streamer ino) = (test_streamer ino, [])"
  "initialized (extents (test_streamer ino))"
  by (simp_all add: once_Do_GetExtents_def test_streamer_def)

lemma commit_same_streamer:
  assumes "GetStreamer client ino = Some s"
  shows "commit ino s calls client = emit (map (OnStreamer ino) calls) client"
proof -
  have "AList.update ino s (streamers client) = streamers client"
    using assms by (simp add: GetStreamer_def update_triv)
  then show ?thesis by (simp add: commit_def)
qed


lemma ExtentNotFoundError_contained: "containsExtentNotFound (Some ExtentNotFoundError)"
  by (simp add: containsExtentNotFound_def HasPrefix_def)

lemma ops_fields:
  "UpdateExpiredExtentCache test_ops s = s"
  "UpdateExpiredExtentCache fresh_ops s = s"
  "UpdateExpiredExtentCache stuck_ops s = s"
  "UpdateExpiredExtentCache unfetched_ops s = s"
  "read test_ops (test_streamer ino) data off sz = ((0, False, Some ExtentNotFoundError), test_streamer ino)"
  "read fresh_ops (test_streamer ino) data off sz = ((0, False, Some ExtentNotFoundError), test_streamer ino)"
  "read stuck_ops (test_streamer ino) data off sz = ((0, False, Some ExtentNotFoundError), test_streamer ino)"
  "read unfetched_ops (test_streamer ino) data off sz = ((0, False, Some ExtentNotFoundError), test_streamer ino)"
  "read test_ops (fetched_streamer ino) data off sz = ((sz, False, None), fetched_streamer ino)"
  "IsExpired test_ops cache secs" "\<not> IsExpired fresh_ops cache secs"
  "IsExpired stuck_ops cache secs" "IsExpired unfetched_ops cache secs"
  "IssueFlushRequest test_ops (test_streamer ino) = (None, test_streamer ino)"
  "IssueFlushRequest unfetched_ops (test_streamer ino) = (None, test_streamer ino)"
  "IssueFlushRequest stuck_ops (test_streamer ino) = (Some (Errorf ''flush failed''), test_streamer ino)"
  "GetExtents test_ops (test_streamer ino) = (None, fetched_streamer ino)"
  "GetExtents unfetched_ops (test_streamer ino) = (Some (Errorf ''get extents failed''), test_streamer ino)"
  by (simp_all add: test_ops_def fresh_ops_def stuck_ops_def unfetched_ops_def test_streamer_def
      fetched_streamer_def)

subsection \<open>Reads of size zero\<close>

text \<open>
  Claim C8. For every inode, buffer and offset, \<^verbatim>\<open>Read\<close> with size 0 returns 0 bytes, no
  hole and no error, and the client after the call is the client before it: neither the
  extent cache nor anything else is touched and nothing is called on a streamer, whatever
  the wrapper says about the volume and whether or not the stream is open.
\<close>

theorem Read_size_zero:
  "Read ops client ino data off 0 = ((0, False, None), client)"
  by (simp add: Read_def)

text \<open>A read of size 0 on the client whose volume is gone, for an inode without a stream.\<close>

theorem Read_size_zero_witness:
  "VolNotExists (dataWrapper gone_client) \<and> GetStreamer gone_client 5 = None
   \<and> Read test_ops gone_client 5 [1, 2, 3] 4096 0 = ((0, False, None), gone_client)"
  using Read_size_zero [of test_ops gone_client 5 "[1, 2, 3]" 4096]
  by (simp add: VolNotExists_def GetStreamer_def gone_client_def test_client_def)

subsection \<open>The file size\<close>

text \<open>
  Claim C9. For an inode without a streamer in the registry, \<^verbatim>\<open>FileSize\<close> returns size 0,
  generation 0 and \<open>valid = False\<close>; the client is unchanged, so no streamer is created, and
  the result has no error. For an inode with a streamer it returns the two results of
  \<^verbatim>\<open>Size()\<close> on the extent cache of that streamer, with \<open>valid = True\<close>.
\<close>

theorem FileSize_of_streamer:
  "(GetStreamer client ino = None \<longrightarrow> FileSize ops client ino = ((0, 0, False), client))
   \<and> (GetStreamer client ino = Some s \<longrightarrow>
        FileSize ops client ino = ((fst (Size ops (extents s)), snd (Size ops (extents s)), True), client))"
  by (simp add: FileSize_def split_def Let_def)

text \<open>Inode 5 has no stream; the stream of inode 1 caches size 1024 and generation 3.\<close>

theorem FileSize_of_streamer_witness:
  "GetStreamer test_client 5 = None
   \<and> FileSize test_ops test_client 5 = ((0, 0, False), test_client)
   \<and> GetStreamer test_client 1 = Some (test_streamer 1)
   \<and> FileSize test_ops test_client 1 = ((1024, 3, True), test_client)"
proof -
  have "FileSize test_ops test_client 5 = ((0, 0, False), test_client)"
    using FileSize_of_streamer [of test_client 5 test_ops] test_client_streamers by simp
  moreover have "FileSize test_ops test_client 1 = ((1024, 3, True), test_client)"
    using FileSize_of_streamer [of test_client 1 test_ops "test_streamer 1"] test_client_streamers
    by (simp add: test_streamer_def test_ops_def)
  ultimately show ?thesis using test_client_streamers by simp
qed

subsection \<open>Closing a stream that is not open\<close>

text \<open>
  Claim C10. For an inode without a streamer in the registry, \<^verbatim>\<open>CloseStream\<close>,
  \<^verbatim>\<open>MustCloseStream\<close> and \<^verbatim>\<open>EvictStream\<close> each return nil and leave the client, and
  with it the registry, as it was; nothing is called on any streamer.
\<close>

theorem close_unregistered_inode:
  "GetStreamer client ino = None \<longrightarrow>
     CloseStream ops client ino = (None, client)
     \<and> MustCloseStream ops client ino = (None, client)
     \<and> EvictStream ops client ino = (None, client)"
  by (simp add: GetStreamer_def CloseStream_def MustCloseStream_def EvictStream_def)

text \<open>Inode 5 on the test client, evicted once and then again.\<close>

theorem close_unregistered_inode_witness:
  "GetStreamer test_client 5 = None
   \<and> CloseStream test_ops test_client 5 = (None, test_client)
   \<and> MustCloseStream test_ops test_client 5 = (None, test_client)
   \<and> EvictStream test_ops test_client 5 = (None, test_client)
   \<and> EvictStream test_ops (snd (EvictStream test_ops test_client 5)) 5 = (None, test_client)"
  using close_unregistered_inode [of test_client 5 test_ops] test_client_streamers by simp

subsection \<open>The volume guard\<close>

text \<open>
  When the wrapper reports that the volume does not exist, \<^verbatim>\<open>Write\<close>, \<^verbatim>\<open>SyncWrite\<close>,
  \<^verbatim>\<open>SyncWriteToSpecificExtent\<close>, \<^verbatim>\<open>Truncate\<close> and \<^verbatim>\<open>Flush\<close>, and \<^verbatim>\<open>Read\<close> of a size
  other than 0, return \<^verbatim>\<open>ErrVolNotExists\<close> and leave the client as it was.
\<close>

lemma VolNotExists_guard:
  assumes "VolNotExists (dataWrapper client)"
  shows "Write ops client ino off data direct ow = ((0, False, Some ErrVolNotExists), client)"
    and "SyncWrite ops client ino off data = (Inr (None, 0, None, Some ErrVolNotExists), client)"
    and "SyncWriteToSpecificExtent ops client dp ino off eoff data extID
          = ((0, Some ErrVolNotExists), client)"
    and "Truncate ops client ino sz = (Some ErrVolNotExists, client)"
    and "Flush ops client ino = (Some ErrVolNotExists, client)"
    and "sz' \<noteq> 0 \<Longrightarrow> Read ops client ino data off sz' = ((0, False, Some ErrVolNotExists), client)"
  using assms
  by (simp_all add: Write_def SyncWrite_def SyncWriteToSpecificExtent_def Truncate_def Flush_def
      Read_def)

lemma gone_client_streamers:
  "GetStreamer gone_client 1 = Some (test_streamer 1)"
  "VolNotExists (dataWrapper gone_client)"
  by (simp_all add: GetStreamer_def gone_client_def test_client_def VolNotExists_def)

text \<open>
  Claim C1 names \<^verbatim>\<open>ExtentMerge\<close> among the operations with this guard, but
  \<^verbatim>\<open>ExtentMerge\<close> does not ask the wrapper. On the client whose volume is gone, with a
  stream open for inode 1, it issues the merge request to the streamer and returns its
  result, \<open>finish = True\<close> without error.
\<close>

theorem ExtentMerge_without_volume:
  "VolNotExists (dataWrapper gone_client)
   \<and> ExtentMerge test_ops gone_client 1
       = ((True, None), emit [OnStreamer 1 ExtentMergeReq] gone_client)"
proof -
  have m: "IssueExtentMergeRequest test_ops (test_streamer 1) = ((True, None), test_streamer 1)"
    by (simp add: test_ops_def)
  show ?thesis
    by (simp add: ExtentMerge_def gone_client_streamers test_streamer_latched m
        commit_same_streamer)
qed

subsection \<open>Writes through the overwrite buffer\<close>





subsection \<open>The retry of a read\<close>

text \<open>
  Claim C3, as stated, fails. With a cache that does not count as expired, the read attempt
  fails with \<^verbatim>\<open>ExtentNotFoundError\<close> and \<^verbatim>\<open>Read\<close> returns that error at once: the only
  calls on the streamer are the refresh of the expired tail and the one read attempt, with
  no flush, no refetch and no second attempt.
\<close>

theorem Read_no_retry_counterexample:
  "containsExtentNotFound (Some ExtentNotFoundError)
   \<and> read fresh_ops (test_streamer 1) test_buf 0 8
       = ((0, False, Some ExtentNotFoundError), test_streamer 1)
   \<and> Read fresh_ops test_client 1 test_buf 0 8 =
       ((0, False, Some ExtentNotFoundError),
        emit [OnStreamer 1 UpdateExpired, OnStreamer 1 ReadCall] test_client)"
proof -
  have "Read fresh_ops test_client 1 test_buf 0 8 =
       ((0, False, Some ExtentNotFoundError),
        emit [OnStreamer 1 UpdateExpired, OnStreamer 1 ReadCall] test_client)"
    by (simp add: Read_def test_client_vol test_client_streamers test_streamer_latched
        ops_fields ExtentNotFoundError_contained commit_same_streamer)
  then show ?thesis
    by (simp add: ExtentNotFoundError_contained ops_fields)
qed

text \<open>
  Claim C3, amended. When the read attempt inside \<^verbatim>\<open>Read\<close> fails with an error whose text
  contains that of \<^verbatim>\<open>ExtentNotFoundError\<close>: if the extent cache is not expired
  (\<^verbatim>\<open>IsExpired(1)\<close> is false), \<^verbatim>\<open>Read\<close> returns the result of that attempt and calls
  nothing more; if it is expired, \<^verbatim>\<open>Read\<close> issues a flush, then, if the flush succeeds,
  refetches the extents, then, if the refetch succeeds, reads once more and returns the
  result of this second attempt. A failed flush or refetch ends the call with that error
  and the count and hole flag of the first attempt. In each case the caller gets one reply.
\<close>

theorem Read_retry_when_expired:
  assumes sz: "sz \<noteq> 0"
    and vol: "\<not> VolNotExists (dataWrapper client)"
    and reg: "GetStreamer client ino = Some s"
    and latch: "once_Do_GetExtents ops s = (s1, calls)"
    and init: "initialized (extents s1)"
    and first: "read ops (UpdateExpiredExtentCache ops s1) data off sz = ((n1, hole1, err1), s3)"
    and nf: "containsExtentNotFound err1"
  shows "(\<not> IsExpired ops (extents s3) 1 \<longrightarrow>
           Read ops client ino data off sz =
             ((n1, hole1, err1), commit ino s3 (calls @ [UpdateExpired, ReadCall]) client))
       \<and> (IsExpired ops (extents s3) 1 \<and> IssueFlushRequest ops s3 = (Some ferr, s4) \<longrightarrow>
           Read ops client ino data off sz =
             ((n1, hole1, Some ferr),
              commit ino s4 (calls @ [UpdateExpired, ReadCall, FlushReq]) client))
       \<and> (IsExpired ops (extents s3) 1 \<and> IssueFlushRequest ops s3 = (None, s4)
            \<and> GetExtents ops s4 = (Some gerr, s5) \<longrightarrow>
           Read ops client ino data off sz =
             ((n1, hole1, Some gerr),
              commit ino s5 (calls @ [UpdateExpired, ReadCall, FlushReq, GetExtentsCall]) client))
       \<and> (IsExpired ops (extents s3) 1 \<and> IssueFlushRequest ops s3 = (None, s4)
            \<and> GetExtents ops s4 = (None, s5) \<and> read ops s5 data off sz = (res2, s6) \<longrightarrow>
           Read ops client ino data off sz =
             (res2,
              commit ino s6
                (calls @ [UpdateExpired, ReadCall, FlushReq, GetExtentsCall, ReadCall]) client))"
  using assms by (simp add: Read_def Let_def)

text \<open>
  The four cases on the test client: the cache is not expired; the flush fails; the refetch
  fails; the retry succeeds and returns 8 bytes.
\<close>

theorem Read_retry_when_expired_witness:
  "(8 :: go_int) \<noteq> 0 \<and> \<not> VolNotExists (dataWrapper test_client)
   \<and> GetStreamer test_client 1 = Some (test_streamer 1)
   \<and> initialized (extents (test_streamer 1))
   \<and> containsExtentNotFound (Some ExtentNotFoundError)
   \<and> Read fresh_ops test_client 1 test_buf 0 8 =
       ((0, False, Some ExtentNotFoundError),
        emit [OnStreamer 1 UpdateExpired, OnStreamer 1 ReadCall] test_client)
   \<and> Read stuck_ops test_client 1 test_buf 0 8 =
       ((0, False, Some (Errorf ''flush failed'')),
        emit [OnStreamer 1 UpdateExpired, OnStreamer 1 ReadCall, OnStreamer 1 FlushReq] test_client)
   \<and> Read unfetched_ops test_client 1 test_buf 0 8 =
       ((0, False, Some (Errorf ''get extents failed'')),
        emit [OnStreamer 1 UpdateExpired, OnStreamer 1 ReadCall, OnStreamer 1 FlushReq,
              OnStreamer 1 GetExtentsCall] test_client)
   \<and> Read test_ops test_client 1 test_buf 0 8 =
       ((8, False, None),
        commit 1 (fetched_streamer 1)
          [UpdateExpired, ReadCall, FlushReq, GetExtentsCall, ReadCall] test_client)"
proof -
  have nz: "(8 :: go_int) \<noteq> 0" by simp
  note reg = test_client_streamers(1)
  note same = commit_same_streamer [OF reg]
  have a: "Read fresh_ops test_client 1 test_buf 0 8 =
       ((0, False, Some ExtentNotFoundError),
        emit [OnStreamer 1 UpdateExpired, OnStreamer 1 ReadCall] test_client)"
    using Read_retry_when_expired [OF nz test_client_vol reg test_streamer_latched(1)
        test_streamer_latched(2), where ops = fresh_ops and data = test_buf and off = 0
        and ?n1.0 = 0 and ?hole1.0 = False and ?err1.0 = "Some ExtentNotFoundError"
        and ?s3.0 = "test_streamer 1"]
    by (simp add: ops_fields ExtentNotFoundError_contained same)
  have b: "Read stuck_ops test_client 1 test_buf 0 8 =
       ((0, False, Some (Errorf ''flush failed'')),
        emit [OnStreamer 1 UpdateExpired, OnStreamer 1 ReadCall, OnStreamer 1 FlushReq] test_client)"
    using Read_retry_when_expired [OF nz test_client_vol reg test_streamer_latched(1)
        test_streamer_latched(2), where ops = stuck_ops and data = test_buf and off = 0
        and ?n1.0 = 0 and ?hole1.0 = False and ?err1.0 = "Some ExtentNotFoundError"
        and ?s3.0 = "test_streamer 1" and ferr = "Errorf ''flush failed''"
        and ?s4.0 = "test_streamer 1"]
    by (simp add: ops_fields ExtentNotFoundError_contained same)
  have c: "Read unfetched_ops test_client 1 test_buf 0 8 =
       ((0, False, Some (Errorf ''get extents failed'')),
        emit [OnStreamer 1 UpdateExpired, OnStreamer 1 ReadCall, OnStreamer 1 FlushReq,
              OnStreamer 1 GetExtentsCall] test_client)"
    using Read_retry_when_expired [OF nz test_client_vol reg test_streamer_latched(1)
        test_streamer_latched(2), where ops = unfetched_ops and data = test_buf and off = 0
        and ?n1.0 = 0 and ?hole1.0 = False and ?err1.0 = "Some ExtentNotFoundError"
        and ?s3.0 = "test_streamer 1" and ?s4.0 = "test_streamer 1"
        and gerr = "Errorf ''get extents failed''" and ?s5.0 = "test_streamer 1"]
    by (simp add: ops_fields ExtentNotFoundError_contained same)
  have d: "Read test_ops test_client 1 test_buf 0 8 =
       ((8, False, None),
        commit 1 (fetched_streamer 1)
          [UpdateExpired, ReadCall, FlushReq, GetExtentsCall, ReadCall] test_client)"
    using Read_retry_when_expired [OF nz test_client_vol reg test_streamer_latched(1)
        test_streamer_latched(2), where ops = test_ops and data = test_buf and off = 0
        and ?n1.0 = 0 and ?hole1.0 = False and ?err1.0 = "Some ExtentNotFoundError"
        and ?s3.0 = "test_streamer 1" and ?s4.0 = "test_streamer 1"
        and ?s5.0 = "fetched_streamer 1" and ?res2.0 = "(8, False, None)"
        and ?s6.0 = "fetched_streamer 1"]
    by (simp add: ops_fields ExtentNotFoundError_contained)
  show ?thesis
    using nz test_client_vol reg test_streamer_latched(2) ExtentNotFoundError_contained a b c d
    by simp
qed

subsection \<open>Close\<close>

lemma Flush_appends:
  "\<exists>es. trace (snd (Flush ops c ino)) = trace c @ es
      \<and> (\<forall>e \<in> set es. \<exists>k. e = OnStreamer ino k)
      \<and> connPool (snd (Flush ops c ino)) = connPool c"
  by (auto simp: Flush_def commit_def emit_def split_def Let_def split: option.splits)

lemma MustCloseStream_appends:
  "\<exists>es. trace (snd (MustCloseStream ops c ino)) = trace c @ es
      \<and> (\<forall>e \<in> set es. \<exists>k. e = OnStreamer ino k)
      \<and> connPool (snd (MustCloseStream ops c ino)) = connPool c"
  by (auto simp: MustCloseStream_def emit_def split_def Let_def split: option.splits)

lemma EvictStream_appends:
  "\<exists>es. trace (snd (EvictStream ops c ino)) = trace c @ es
      \<and> (\<forall>e \<in> set es. \<exists>k. e = OnStreamer ino k)
      \<and> connPool (snd (EvictStream ops c ino)) = connPool c"
  by (auto simp: EvictStream_def emit_def split_def Let_def split: option.splits)

lemma release_one_appends:
  "\<exists>es. trace (snd (EvictStream ops (snd (MustCloseStream ops (snd (Flush ops c ino)) ino)) ino))
        = trace c @ es
      \<and> (\<forall>e \<in> set es. \<exists>k. e = OnStreamer ino k)
      \<and> connPool (snd (EvictStream ops (snd (MustCloseStream ops (snd (Flush ops c ino)) ino)) ino))
        = connPool c"
proof -
  let ?c1 = "snd (Flush ops c ino)"
  let ?c2 = "snd (MustCloseStream ops ?c1 ino)"
  let ?c3 = "snd (EvictStream ops ?c2 ino)"
  obtain e1 where e1: "trace ?c1 = trace c @ e1" "\<forall>e \<in> set e1. \<exists>k. e = OnStreamer ino k"
      "connPool ?c1 = connPool c"
    using Flush_appends [of ops c ino] by blast
  obtain e2 where e2: "trace ?c2 = trace ?c1 @ e2" "\<forall>e \<in> set e2. \<exists>k. e = OnStreamer ino k"
      "connPool ?c2 = connPool ?c1"
    using MustCloseStream_appends [of ops ?c1 ino] by blast
  obtain e3 where e3: "trace ?c3 = trace ?c2 @ e3" "\<forall>e \<in> set e3. \<exists>k. e = OnStreamer ino k"
      "connPool ?c3 = connPool ?c2"
    using EvictStream_appends [of ops ?c2 ino] by blast
  have "trace ?c3 = trace c @ (e1 @ e2 @ e3)" using e1 e2 e3 by simp
  moreover have "\<forall>e \<in> set (e1 @ e2 @ e3). \<exists>k. e = OnStreamer ino k"
    using e1 e2 e3 by auto
  moreover have "connPool ?c3 = connPool c" using e1 e2 e3 by simp
  ultimately show ?thesis by blast
qed

lemma release_streamers_foldl:
  "release_streamers ops c inodes =
     foldl (\<lambda>c ino. snd (EvictStream ops (snd (MustCloseStream ops (snd (Flush ops c ino)) ino)) ino))
       c inodes"
  by (induction inodes arbitrary: c) (simp_all add: split_def)

lemma release_streamers_appends:
  "\<exists>es. trace (release_streamers ops c inodes) = trace c @ es
      \<and> (\<forall>e \<in> set es. \<exists>ino \<in> set inodes. \<exists>k. e = OnStreamer ino k)
      \<and> connPool (release_streamers ops c inodes) = connPool c"
proof (induction inodes arbitrary: c)
  case Nil
  show ?case by simp
next
  case (Cons ino inodes)
  let ?c' = "snd (EvictStream ops (snd (MustCloseStream ops (snd (Flush ops c ino)) ino)) ino)"
  obtain e1 where e1: "trace ?c' = trace c @ e1" "\<forall>e \<in> set e1. \<exists>k. e = OnStreamer ino k"
      "connPool ?c' = connPool c"
    using release_one_appends [of ops c ino] by blast
  obtain e2 where e2: "trace (release_streamers ops ?c' inodes) = trace ?c' @ e2"
      "\<forall>e \<in> set e2. \<exists>i \<in> set inodes. \<exists>k. e = OnStreamer i k"
      "connPool (release_streamers ops ?c' inodes) = connPool ?c'"
    using Cons.IH [of ?c'] by blast
  have r: "release_streamers ops c (ino # inodes) = release_streamers ops ?c' inodes"
    by (simp add: split_def)
  have "trace (release_streamers ops c (ino # inodes)) = trace c @ (e1 @ e2)"
    using r e1 e2 by simp
  moreover have "\<forall>e \<in> set (e1 @ e2). \<exists>i \<in> set (ino # inodes). \<exists>k. e = OnStreamer i k"
    using e1 e2 by auto
  moreover have "connPool (release_streamers ops c (ino # inodes)) = connPool c"
    using r e1 e2 by simp
  ultimately show ?case by blast
qed

lemma release_test_client:
  "foldl (\<lambda>c ino. snd (EvictStream test_ops (snd (MustCloseStream test_ops (snd (Flush test_ops c ino)) ino)) ino))
     (emit [StopSignal, WaitBackground, WrapperStop]
        (test_client\<lparr>stopC_closed := True,
                     dataWrapper := (dataWrapper test_client)\<lparr>stopped := True\<rparr>\<rparr>))
     (Keys (streamers test_client)) = closed_client"
  by (simp add: Keys_def test_client_def new_ExtentClient_def emit_def Flush_def VolNotExists_def
      GetStreamer_def MustCloseStream_def EvictStream_def test_ops_def commit_def
      test_streamer_def closed_client_def Let_def)

text \<open>
  Claim C7, as stated, fails. \<^verbatim>\<open>Close\<close> on the test client stops the partition wrapper
  before it releases the first streamer, and it does not close the connection pool: the pool
  is still there when \<^verbatim>\<open>Close\<close> has returned.
\<close>

theorem Close_order_counterexample:
  "Close test_ops test_client = (Inr None, closed_client)
   \<and> trace test_client = []
   \<and> trace closed_client =
       [StopSignal, WaitBackground, WrapperStop,
        OnStreamer 1 FlushReq, OnStreamer 1 MustReleaseReq, OnStreamer 1 EvictReq,
        OnStreamer 1 DoneSignal, OnStreamer 1 WorkerWait,
        OnStreamer 2 FlushReq, OnStreamer 2 MustReleaseReq, OnStreamer 2 EvictReq,
        OnStreamer 2 DoneSignal, OnStreamer 2 WorkerWait]
   \<and> connPool closed_client"
proof -
  have "Close test_ops test_client = (Inr None, closed_client)"
    using release_test_client
    by (simp add: Close_def Let_def release_streamers_foldl emit_def test_client_def
        new_ExtentClient_def)
  then show ?thesis
    by (simp add: closed_client_def test_client_def new_ExtentClient_def)
qed

text \<open>
  Claim C7, amended. \<^verbatim>\<open>Close\<close>, on a client whose stop channel is still open, performs
  in this order: it closes the stop channel, waits for the background tasks, stops the
  partition wrapper, and then, for every inode of the snapshot of the registry in turn,
  calls \<^verbatim>\<open>Flush\<close>, then \<^verbatim>\<open>MustCloseStream\<close>, then \<^verbatim>\<open>EvictStream\<close>, and returns nil.
  Everything recorded after the first three events is a call on the streamer of an inode of
  the snapshot; the connection pool is not closed, which is the work of \<^verbatim>\<open>CloseConnPool\<close>.
  A second \<^verbatim>\<open>Close\<close> panics on the closed channel.
\<close>

theorem Close_order:
  "(stopC_closed client \<longrightarrow> Close ops client = (Inl CloseOfClosedChannel, client))
   \<and> (\<not> stopC_closed client \<longrightarrow>
        (\<exists>rest.
           Close ops client =
             (Inr None,
              foldl (\<lambda>c ino. snd (EvictStream ops (snd (MustCloseStream ops (snd (Flush ops c ino)) ino)) ino))
                (emit [StopSignal, WaitBackground, WrapperStop]
                   (client\<lparr>stopC_closed := True,
                            dataWrapper := (dataWrapper client)\<lparr>stopped := True\<rparr>\<rparr>))
                (Keys (streamers client)))
           \<and> trace (snd (Close ops client))
               = trace client @ [StopSignal, WaitBackground, WrapperStop] @ rest
           \<and> (\<forall>e \<in> set rest. \<exists>ino \<in> set (Keys (streamers client)). \<exists>k. e = OnStreamer ino k)
           \<and> connPool (snd (Close ops client)) = connPool client))
   \<and> (connPool client \<longrightarrow> CloseConnPool client = emit [ConnPoolClose] (client\<lparr>connPool := False\<rparr>))"
proof (intro conjI impI)
  assume "stopC_closed client"
  then show "Close ops client = (Inl CloseOfClosedChannel, client)"
    by (simp add: Close_def)
next
  assume "connPool client"
  then show "CloseConnPool client = emit [ConnPoolClose] (client\<lparr>connPool := False\<rparr>)"
    by (simp add: CloseConnPool_def)
next
  assume running: "\<not> stopC_closed client"
  let ?c3 = "emit [StopSignal, WaitBackground, WrapperStop]
     (client\<lparr>stopC_closed := True, dataWrapper := (dataWrapper client)\<lparr>stopped := True\<rparr>\<rparr>)"
  let ?keys = "Keys (streamers client)"
  have cl: "Close ops client = (Inr None, release_streamers ops ?c3 ?keys)"
    using running by (simp add: Close_def Let_def emit_def)
  obtain rest where rest: "trace (release_streamers ops ?c3 ?keys) = trace ?c3 @ rest"
      "\<forall>e \<in> set rest. \<exists>ino \<in> set ?keys. \<exists>k. e = OnStreamer ino k"
      "connPool (release_streamers ops ?c3 ?keys) = connPool ?c3"
    using release_streamers_appends [of ops ?c3 ?keys] by blast
  have "Close ops client =
      (Inr None,
       foldl (\<lambda>c ino. snd (EvictStream ops (snd (MustCloseStream ops (snd (Flush ops c ino)) ino)) ino))
         ?c3 ?keys)"
    using cl by (simp add: release_streamers_foldl)
  moreover have "trace (snd (Close ops client))
      = trace client @ [StopSignal, WaitBackground, WrapperStop] @ rest"
    using cl rest(1) by (simp add: emit_def)
  moreover have "connPool (snd (Close ops client)) = connPool client"
    using cl rest(3) by (simp add: emit_def)
  ultimately show "\<exists>rest.
           Close ops client =
             (Inr None,
              foldl (\<lambda>c ino. snd (EvictStream ops (snd (MustCloseStream ops (snd (Flush ops c ino)) ino)) ino))
                ?c3 ?keys)
           \<and> trace (snd (Close ops client))
               = trace client @ [StopSignal, WaitBackground, WrapperStop] @ rest
           \<and> (\<forall>e \<in> set rest. \<exists>ino \<in> set ?keys. \<exists>k. e = OnStreamer ino k)
           \<and> connPool (snd (Close ops client)) = connPool client"
    using rest(2) by blast
qed

text \<open>\<^verbatim>\<open>Close\<close> on the test client, \<^verbatim>\<open>Close\<close> once more, and \<^verbatim>\<open>CloseConnPool\<close>.\<close>

theorem Close_order_witness:
  "\<not> stopC_closed test_client \<and> connPool test_client
   \<and> Close test_ops test_client = (Inr None, closed_client)
   \<and> stopC_closed closed_client
   \<and> Close test_ops closed_client = (Inl CloseOfClosedChannel, closed_client)
   \<and> CloseConnPool test_client = emit [ConnPoolClose] (test_client\<lparr>connPool := False\<rparr>)"
proof -
  have h: "\<not> stopC_closed test_client" "connPool test_client" "stopC_closed closed_client"
    by (simp_all add: test_client_def new_ExtentClient_def closed_client_def)
  have "Close test_ops test_client = (Inr None, closed_client)"
    using Close_order [of test_client test_ops] h(1) release_test_client by auto
  moreover have "Close test_ops closed_client = (Inl CloseOfClosedChannel, closed_client)"
    using Close_order [of closed_client test_ops] h(3) by blast
  moreover have "CloseConnPool test_client = emit [ConnPoolClose] (test_client\<lparr>connPool := False\<rparr>)"
    using Close_order [of test_client test_ops] h(2) by blast
  ultimately show ?thesis using h by simp
qed

end
